theory Spec2Isabelle
  imports Complex_Main
begin

section \<open>JavaScript values\<close>

text \<open>
  The state manager of Mixboard (\<^verbatim>\<open>stagelinq-manager.js\<close>) reduces loosely typed protocol
  values into one state tree. The values it receives are the values of JSON documents and
  of status objects: \<^verbatim>\<open>undefined\<close>, \<^verbatim>\<open>null\<close>, booleans, numbers, strings, arrays and plain
  objects.

  Numbers are the extended reals: a finite value, the two infinities and \<^verbatim>\<open>NaN\<close>. The
  arithmetic is exact: the rounding and the overflow of IEEE doubles are not modelled, and
  the negative zero is identified with zero (the source never divides by a zero and only
  tests numbers for truthiness and for \<^verbatim>\<open>> 0\<close>, where both zeros agree).

  Strings are byte lists holding the UTF-8 encoding of the JavaScript string.

  What is modelled: the key table, the empty tree, the two raw reducers, the path
  dispatcher, the player status merger with its deck resolution, and the reset of \<^verbatim>\<open>stop\<close>.
  The event handlers that \<^verbatim>\<open>start\<close> installs call these and then emit the tree; they, the
  demo mode, the artwork query and what is printed to the console are left out.
\<close>

datatype jsnum = Fin real | PosInf | NegInf | NaN

datatype jsval =
    JUndefined
  | JNull
  | JBool bool
  | JNum jsnum
  | JStr string
  | JArr "jsval list"
  | JObj "(string \<times> jsval) list"

subsection \<open>Number operations\<close>

text \<open>\<^verbatim>\<open>a > b\<close> on numbers: false as soon as one side is \<^verbatim>\<open>NaN\<close>.\<close>

fun jgt :: "jsnum \<Rightarrow> jsnum \<Rightarrow> bool" where
  "jgt NaN _ = False"
| "jgt _ NaN = False"
| "jgt (Fin a) (Fin b) = (b < a)"
| "jgt PosInf PosInf = False"
| "jgt PosInf _ = True"
| "jgt NegInf _ = False"
| "jgt (Fin a) NegInf = True"
| "jgt (Fin a) PosInf = False"

definition jge :: "jsnum \<Rightarrow> jsnum \<Rightarrow> bool" where
  "jge a b = (a \<noteq> NaN \<and> b \<noteq> NaN \<and> (a = b \<or> jgt a b))"

definition jle :: "jsnum \<Rightarrow> jsnum \<Rightarrow> bool" where
  "jle a b = jge b a"

text \<open>The sign of a number that is not \<^verbatim>\<open>NaN\<close>: -1, 0 or 1.\<close>

fun jsign :: "jsnum \<Rightarrow> int" where
  "jsign (Fin a) = (if a < 0 then -1 else if a = 0 then 0 else 1)"
| "jsign PosInf = 1"
| "jsign NegInf = -1"
| "jsign NaN = 0"

definition inf_of_sign :: "int \<Rightarrow> jsnum" where
  "inf_of_sign sg = (if sg < 0 then NegInf else PosInf)"

text \<open>
  \<^verbatim>\<open>a / b\<close>. A zero divisor is the positive zero of the model; an infinite quotient takes
  the sign of the operands.
\<close>

fun jdiv :: "jsnum \<Rightarrow> jsnum \<Rightarrow> jsnum" where
  "jdiv NaN _ = NaN"
| "jdiv _ NaN = NaN"
| "jdiv (Fin a) (Fin b) =
     (if b = 0 then (if a = 0 then NaN else inf_of_sign (jsign (Fin a))) else Fin (a / b))"
| "jdiv (Fin a) PosInf = Fin 0"
| "jdiv (Fin a) NegInf = Fin 0"
| "jdiv PosInf (Fin b) = inf_of_sign (if b < 0 then -1 else 1)"
| "jdiv NegInf (Fin b) = inf_of_sign (if b < 0 then 1 else -1)"
| "jdiv PosInf _ = NaN"
| "jdiv NegInf _ = NaN"

text \<open>\<^verbatim>\<open>a * b\<close>: zero times infinity is \<^verbatim>\<open>NaN\<close>.\<close>

fun jmul :: "jsnum \<Rightarrow> jsnum \<Rightarrow> jsnum" where
  "jmul NaN _ = NaN"
| "jmul _ NaN = NaN"
| "jmul (Fin a) (Fin b) = Fin (a * b)"
| "jmul a b =
     (if jsign a * jsign b = 0 then NaN else inf_of_sign (jsign a * jsign b))"

text \<open>Truthiness of a number, and \<^verbatim>\<open>x || dflt\<close> on numbers.\<close>

definition num_truthy :: "jsnum \<Rightarrow> bool" where
  "num_truthy x = (x \<noteq> NaN \<and> x \<noteq> Fin 0)"

definition num_or :: "jsnum \<Rightarrow> jsnum \<Rightarrow> jsnum" where
  "num_or x dflt = (if num_truthy x then x else dflt)"

subsection \<open>Truthiness and the logical or\<close>

fun truthy :: "jsval \<Rightarrow> bool" where
  "truthy JUndefined = False"
| "truthy JNull = False"
| "truthy (JBool b) = b"
| "truthy (JNum x) = num_truthy x"
| "truthy (JStr s) = (s \<noteq> [])"
| "truthy (JArr _) = True"
| "truthy (JObj _) = True"

definition js_or :: "jsval \<Rightarrow> jsval \<Rightarrow> jsval" where
  "js_or a b = (if truthy a then a else b)"

subsection \<open>Strings: white space, digits, searching\<close>

fun strip_prefix :: "string \<Rightarrow> string \<Rightarrow> string option" where
  "strip_prefix [] s = Some s"
| "strip_prefix (p # ps) [] = None"
| "strip_prefix (p # ps) (c # cs) = (if p = c then strip_prefix ps cs else None)"

text \<open>
  The line terminators of ECMAScript (LF, CR, U+2028, U+2029) and its white space (TAB, VT,
  FF, SP, U+00A0, U+1680, U+2000 to U+200A, U+202F, U+205F, U+3000, U+FEFF), in UTF-8.
\<close>

definition line_terminators :: "string list" where
  "line_terminators =
     [[CHR 0x0A], [CHR 0x0D], [CHR 0xE2, CHR 0x80, CHR 0xA8], [CHR 0xE2, CHR 0x80, CHR 0xA9]]"

definition white_space :: "string list" where
  "white_space =
     [[CHR 0x09], [CHR 0x0B], [CHR 0x0C], [CHR 0x20], [CHR 0xC2, CHR 0xA0],
      [CHR 0xE1, CHR 0x9A, CHR 0x80],
      [CHR 0xE2, CHR 0x80, CHR 0x80], [CHR 0xE2, CHR 0x80, CHR 0x81],
      [CHR 0xE2, CHR 0x80, CHR 0x82], [CHR 0xE2, CHR 0x80, CHR 0x83],
      [CHR 0xE2, CHR 0x80, CHR 0x84], [CHR 0xE2, CHR 0x80, CHR 0x85],
      [CHR 0xE2, CHR 0x80, CHR 0x86], [CHR 0xE2, CHR 0x80, CHR 0x87],
      [CHR 0xE2, CHR 0x80, CHR 0x88], [CHR 0xE2, CHR 0x80, CHR 0x89],
      [CHR 0xE2, CHR 0x80, CHR 0x8A],
      [CHR 0xE2, CHR 0x80, CHR 0xAF], [CHR 0xE2, CHR 0x81, CHR 0x9F],
      [CHR 0xE3, CHR 0x80, CHR 0x80], [CHR 0xEF, CHR 0xBB, CHR 0xBF]]"

text \<open>The rest of the string after the first of the tokens that starts it.\<close>

fun drop_token :: "string list \<Rightarrow> string \<Rightarrow> string option" where
  "drop_token [] s = None"
| "drop_token (t # ts) s =
     (if t = [] then drop_token ts s
      else case strip_prefix t s of Some r \<Rightarrow> Some r | None \<Rightarrow> drop_token ts s)"

lemma strip_prefix_length: "strip_prefix p s = Some r \<Longrightarrow> length s = length p + length r"
  by (induction p s rule: strip_prefix.induct) (auto split: if_splits)

lemma drop_token_shorter: "drop_token ts s = Some r \<Longrightarrow> length r < length s"
  by (induction ts s rule: drop_token.induct)
     (auto split: if_splits option.splits dest: strip_prefix_length)

function trim_start :: "string \<Rightarrow> string" where
  "trim_start s =
     (case drop_token (white_space @ line_terminators) s of
        Some r \<Rightarrow> trim_start r
      | None \<Rightarrow> s)"
  by pat_completeness auto
termination
  by (relation "measure length") (auto dest: drop_token_shorter)

declare trim_start.simps [simp del]

text \<open>
  Trimming the end works on the reversed string, with the reversed encodings of the same
  characters.
\<close>

function trim_start_rev :: "string \<Rightarrow> string" where
  "trim_start_rev s =
     (case drop_token (map rev (white_space @ line_terminators)) s of
        Some r \<Rightarrow> trim_start_rev r
      | None \<Rightarrow> s)"
  by pat_completeness auto
termination
  by (relation "measure length") (auto dest: drop_token_shorter)

declare trim_start_rev.simps [simp del]

definition trim :: "string \<Rightarrow> string" where
  "trim s = rev (trim_start_rev (rev (trim_start s)))"

subsection \<open>Digits and numeric literals\<close>

definition digit_of :: "char \<Rightarrow> nat option" where
  "digit_of c =
     (let n = (of_char c :: nat) in
      if 48 \<le> n \<and> n \<le> 57 then Some (n - 48)
      else if 97 \<le> n \<and> n \<le> 122 then Some (n - 87)
      else if 65 \<le> n \<and> n \<le> 90 then Some (n - 55)
      else None)"

definition radix_digit :: "nat \<Rightarrow> char \<Rightarrow> nat option" where
  "radix_digit R c =
     (case digit_of c of Some d \<Rightarrow> (if d < R then Some d else None) | None \<Rightarrow> None)"

definition is_digit :: "char \<Rightarrow> bool" where
  "is_digit c = (radix_digit 10 c \<noteq> None)"

text \<open>The longest run of digits of radix \<open>R\<close> that starts the string, and what follows it.\<close>

fun take_digits :: "nat \<Rightarrow> string \<Rightarrow> nat list \<times> string" where
  "take_digits R [] = ([], [])"
| "take_digits R (c # cs) =
     (case radix_digit R c of
        Some d \<Rightarrow> (d # fst (take_digits R cs), snd (take_digits R cs))
      | None \<Rightarrow> ([], c # cs))"

definition digits_val :: "nat \<Rightarrow> nat list \<Rightarrow> nat" where
  "digits_val R ds = foldl (\<lambda>a d. a * R + d) 0 ds"

text \<open>An optional sign: the sign and the rest of the string.\<close>

fun take_sign :: "string \<Rightarrow> real \<times> string" where
  "take_sign [] = (1, [])"
| "take_sign (c # cs) =
     (if c = CHR ''-'' then (-1, cs) else if c = CHR ''+'' then (1, cs) else (1, c # cs))"

text \<open>
  \<^verbatim>\<open>StrUnsignedDecimalLiteral\<close> without \<^verbatim>\<open>Infinity\<close>: digits, an optional fraction and an
  optional exponent. The result is the value of the longest prefix that is such a literal
  and the rest of the string; \<open>None\<close> when no prefix is one.
\<close>

definition take_exponent :: "string \<Rightarrow> int \<times> string" where
  "take_exponent s =
     (case s of
        [] \<Rightarrow> (0, s)
      | e # t \<Rightarrow>
          if e = CHR ''e'' \<or> e = CHR ''E'' then
            (let (sg, t') = take_sign t; (es, r) = take_digits 10 t' in
             if es = [] then (0, s)
             else ((if sg < 0 then - int (digits_val 10 es) else int (digits_val 10 es)), r))
          else (0, s))"

definition scale10 :: "real \<Rightarrow> int \<Rightarrow> real" where
  "scale10 x e = (if 0 \<le> e then x * 10 ^ nat e else x / 10 ^ nat (- e))"

definition parse_unsigned :: "string \<Rightarrow> (real \<times> string) option" where
  "parse_unsigned s =
     (let (ip, r1) = take_digits 10 s;
          (fp, r2) = (case r1 of
                        [] \<Rightarrow> ([], r1)
                      | d # t \<Rightarrow>
                          if d = CHR ''.'' then
                            (let (f, r) = take_digits 10 t in
                             if ip = [] \<and> f = [] then ([], r1) else (f, r))
                          else ([], r1))
      in if ip = [] \<and> fp = [] then None
         else (let (e, r3) = take_exponent r2;
                   m = real (digits_val 10 ip) + real (digits_val 10 fp) / 10 ^ length fp
               in Some (scale10 m e, r3)))"

subsection \<open>The built-in conversions\<close>

text \<open>
  \<^verbatim>\<open>parseFloat\<close> on a string: leading white space is skipped, then the longest prefix that
  is a decimal literal is read; \<^verbatim>\<open>NaN\<close> when there is none.
\<close>

definition parseFloat_str :: "string \<Rightarrow> jsnum" where
  "parseFloat_str s =
     (let (sg, u) = take_sign (trim_start s) in
      case strip_prefix ''Infinity'' u of
        Some _ \<Rightarrow> (if sg < 0 then NegInf else PosInf)
      | None \<Rightarrow> (case parse_unsigned u of Some (v, _) \<Rightarrow> Fin (sg * v) | None \<Rightarrow> NaN))"

text \<open>
  \<^verbatim>\<open>parseInt\<close> on a string, without a radix argument: white space, a sign, an optional
  \<^verbatim>\<open>0x\<close> that selects radix 16, then the longest run of digits.
\<close>

definition parseInt_str :: "string \<Rightarrow> jsnum" where
  "parseInt_str s =
     (let (sg, u) = take_sign (trim_start s);
          (R, w) = (case strip_prefix ''0x'' u of
                      Some r \<Rightarrow> (16, r)
                    | None \<Rightarrow> (case strip_prefix ''0X'' u of
                                 Some r \<Rightarrow> (16, r)
                               | None \<Rightarrow> (10, u)));
          ds = fst (take_digits R w)
      in if ds = [] then NaN else Fin (sg * real (digits_val R ds)))"

text \<open>
  \<^verbatim>\<open>Number(s)\<close> on a string: the whole trimmed string must be a numeric literal; the empty
  string is 0.
\<close>

definition radix_literal :: "nat \<Rightarrow> string \<Rightarrow> jsnum" where
  "radix_literal R w =
     (case take_digits R w of
        (ds, r) \<Rightarrow> if ds \<noteq> [] \<and> r = [] then Fin (real (digits_val R ds)) else NaN)"

definition radix_prefix :: "string \<Rightarrow> (nat \<times> string) option" where
  "radix_prefix t =
     (case t of
        z # x # w \<Rightarrow>
          if z \<noteq> CHR ''0'' then None
          else if x = CHR ''x'' \<or> x = CHR ''X'' then Some (16, w)
          else if x = CHR ''o'' \<or> x = CHR ''O'' then Some (8, w)
          else if x = CHR ''b'' \<or> x = CHR ''B'' then Some (2, w)
          else None
      | _ \<Rightarrow> None)"

definition toNumber_str :: "string \<Rightarrow> jsnum" where
  "toNumber_str s =
     (let t = trim s in
      if t = [] then Fin 0
      else case radix_prefix t of
        Some (R, w) \<Rightarrow> radix_literal R w
      | None \<Rightarrow>
          (let (sg, u) = take_sign t in
           if u = ''Infinity'' then (if sg < 0 then NegInf else PosInf)
           else case parse_unsigned u of
                  Some (v, r) \<Rightarrow> (if r = [] then Fin (sg * v) else NaN)
                | None \<Rightarrow> NaN))"

text \<open>
  \<^verbatim>\<open>parseInt\<close> and \<^verbatim>\<open>parseFloat\<close> convert their argument to a string first. For a number
  the string is its shortest decimal form, which reads back as the same number: so
  \<^verbatim>\<open>parseFloat(x)\<close> is \<open>x\<close>. The string is in positional notation from \<open>10\<^sup>-\<^sup>6\<close> up to
  \<open>10\<^sup>2\<^sup>1\<close>, where \<^verbatim>\<open>parseInt\<close> reads the integer part, and in exponent notation outside,
  where \<^verbatim>\<open>parseInt\<close> reads the leading digit only.
\<close>

lemma lead_down_decreases: "10 \<le> (x::real) \<Longrightarrow> \<lfloor>x / 10\<rfloor> < \<lfloor>x\<rfloor>"
proof -
  assume x: "10 \<le> x"
  have "real_of_int \<lfloor>x / 10\<rfloor> \<le> x / 10" by (rule of_int_floor_le)
  also have "\<dots> < x - 1" using x by simp
  also have "\<dots> < real_of_int \<lfloor>x\<rfloor>" by linarith
  finally show ?thesis by simp
qed

function lead_down :: "real \<Rightarrow> int" where
  "lead_down x = (if 10 \<le> x then lead_down (x / 10) else \<lfloor>x\<rfloor>)"
  by pat_completeness auto
termination
  by (relation "measure (\<lambda>x. nat \<lfloor>x\<rfloor>)") (auto simp: lead_down_decreases)

declare lead_down.simps [simp del]

lemma lead_up_decreases:
  "0 < (x::real) \<Longrightarrow> x < 1 \<Longrightarrow> \<lceil>1 / (x * 10)\<rceil> < \<lceil>1 / x\<rceil>"
proof -
  assume pos: "0 < x" and lt: "x < 1"
  define y where "y = 1 / x"
  have y1: "1 < y" using pos lt by (simp add: y_def)
  have eq: "1 / (x * 10) = y / 10" by (simp add: y_def)
  have "\<lceil>y / 10\<rceil> < \<lceil>y\<rceil>"
  proof (cases "y \<le> 10")
    case True
    then have "\<lceil>y / 10\<rceil> \<le> 1" by (simp add: ceiling_le_iff)
    moreover have "2 \<le> \<lceil>y\<rceil>" using y1 by linarith
    ultimately show ?thesis by linarith
  next
    case False
    then have "y / 10 + 1 < y" by simp
    moreover have "real_of_int \<lceil>y / 10\<rceil> < y / 10 + 1" by linarith
    moreover have "y \<le> real_of_int \<lceil>y\<rceil>" by (rule le_of_int_ceiling)
    ultimately have "real_of_int \<lceil>y / 10\<rceil> < real_of_int \<lceil>y\<rceil>" by linarith
    then show ?thesis by simp
  qed
  then show ?thesis by (simp only: eq y_def)
qed

function lead_up :: "real \<Rightarrow> int" where
  "lead_up x = (if 0 < x \<and> x < 1 then lead_up (x * 10) else \<lfloor>x\<rfloor>)"
  by pat_completeness auto
termination
  by (relation "measure (\<lambda>x. nat \<lceil>1 / x\<rceil>)") (auto simp: lead_up_decreases)

declare lead_up.simps [simp del]

definition parseInt_num :: "jsnum \<Rightarrow> jsnum" where
  "parseInt_num x =
     (case x of
        Fin r \<Rightarrow>
          (let a = \<bar>r\<bar>; sg = (if r < 0 then -1 else 1 :: int) in
           if a = 0 then Fin 0
           else if a < 1 / 10 ^ 6 then Fin (real_of_int (sg * lead_up a))
           else if a < 10 ^ 21 then Fin (real_of_int (sg * \<lfloor>a\<rfloor>))
           else Fin (real_of_int (sg * lead_down a)))
      | _ \<Rightarrow> NaN)"

text \<open>
  \<^verbatim>\<open>String(v)\<close>. The decimal form of a finite number is the parameter \<open>ns\<close>
  (\<^verbatim>\<open>Number::toString\<close>, the shortest digits that read back as the same double): every
  function below that may print a number takes it, and every theorem holds for any \<open>ns\<close>.
  Arrays join their elements with commas; a plain object prints as \<^verbatim>\<open>[object Object]\<close>.
\<close>

definition num_str :: "(real \<Rightarrow> string) \<Rightarrow> jsnum \<Rightarrow> string" where
  "num_str ns x =
     (case x of Fin r \<Rightarrow> ns r | PosInf \<Rightarrow> ''Infinity'' | NegInf \<Rightarrow> ''-Infinity''
      | NaN \<Rightarrow> ''NaN'')"

fun join_with :: "string \<Rightarrow> string list \<Rightarrow> string" where
  "join_with sep [] = []"
| "join_with sep [x] = x"
| "join_with sep (x # y # ys) = x @ sep @ join_with sep (y # ys)"

fun toStr :: "(real \<Rightarrow> string) \<Rightarrow> jsval \<Rightarrow> string" where
  "toStr ns JUndefined = ''undefined''"
| "toStr ns JNull = ''null''"
| "toStr ns (JBool b) = (if b then ''true'' else ''false'')"
| "toStr ns (JNum x) = num_str ns x"
| "toStr ns (JStr s) = s"
| "toStr ns (JArr xs) =
     join_with '','' (map (\<lambda>v. if v = JUndefined \<or> v = JNull then [] else toStr ns v) xs)"
| "toStr ns (JObj _) = ''[object Object]''"

fun parseFloat :: "(real \<Rightarrow> string) \<Rightarrow> jsval \<Rightarrow> jsnum" where
  "parseFloat ns (JNum x) = x"
| "parseFloat ns v = parseFloat_str (toStr ns v)"

fun parseInt :: "(real \<Rightarrow> string) \<Rightarrow> jsval \<Rightarrow> jsnum" where
  "parseInt ns (JNum x) = parseInt_num x"
| "parseInt ns v = parseInt_str (toStr ns v)"

text \<open>\<^verbatim>\<open>Number(v)\<close>, which is also the conversion behind \<^verbatim>\<open>v > 0\<close>.\<close>

fun toNumber :: "(real \<Rightarrow> string) \<Rightarrow> jsval \<Rightarrow> jsnum" where
  "toNumber ns JUndefined = NaN"
| "toNumber ns JNull = Fin 0"
| "toNumber ns (JBool b) = (if b then Fin 1 else Fin 0)"
| "toNumber ns (JNum x) = x"
| "toNumber ns (JStr s) = toNumber_str s"
| "toNumber ns v = toNumber_str (toStr ns v)"

definition gt0 :: "(real \<Rightarrow> string) \<Rightarrow> jsval \<Rightarrow> bool" where
  "gt0 ns v = jgt (toNumber ns v) (Fin 0)"

subsection \<open>Searching strings and the path patterns\<close>

text \<open>\<^verbatim>\<open>s.includes(p)\<close> and \<^verbatim>\<open>s.replace(p, rep)\<close>, which replaces the first occurrence.\<close>

fun str_includes :: "string \<Rightarrow> string \<Rightarrow> bool" where
  "str_includes [] p = (p = [])"
| "str_includes (c # cs) p = (strip_prefix p (c # cs) \<noteq> None \<or> str_includes cs p)"

fun replace_first :: "string \<Rightarrow> string \<Rightarrow> string \<Rightarrow> string" where
  "replace_first [] p rep = (if p = [] then rep else [])"
| "replace_first (c # cs) p rep =
     (case strip_prefix p (c # cs) of
        Some r \<Rightarrow> rep @ r
      | None \<Rightarrow> c # replace_first cs p rep)"

text \<open>What \<^verbatim>\<open>(.*)\<close> captures: everything up to the first line terminator.\<close>

fun take_line :: "string \<Rightarrow> string" where
  "take_line [] = []"
| "take_line (c # cs) =
     (if drop_token line_terminators (c # cs) \<noteq> None then [] else c # take_line cs)"

text \<open>
  The patterns \<^verbatim>\<open>/\\/Engine\\/Deck(\\d)\\/(.*)/\<close> and \<^verbatim>\<open>/\\/Client\\/Deck(\\d)\\/(.*)/\<close>: the
  leftmost place where the prefix is followed by a digit and a slash; the groups are the
  digit and the rest of the line.
\<close>

fun match_deck :: "string \<Rightarrow> string \<Rightarrow> (char \<times> string) option" where
  "match_deck pre [] = None"
| "match_deck pre (c # cs) =
     (case strip_prefix pre (c # cs) of
        Some (d # sl # rest) \<Rightarrow>
          if is_digit d \<and> sl = CHR ''/'' then Some (d, take_line rest)
          else match_deck pre cs
      | _ \<Rightarrow> match_deck pre cs)"

text \<open>The pattern \<^verbatim>\<open>/\\/Mixer\\/(.*)/\<close>.\<close>

fun match_mixer :: "string \<Rightarrow> string option" where
  "match_mixer [] = None"
| "match_mixer (c # cs) =
     (case strip_prefix ''/Mixer/'' (c # cs) of
        Some rest \<Rightarrow> Some (take_line rest)
      | None \<Rightarrow> match_mixer cs)"

section \<open>The state tree\<close>

text \<open>
  \<^verbatim>\<open>KEY_MAP\<close>: the key index to the musical key, in Camelot notation. The flat and the
  sharp sign are U+266D and U+266F.
\<close>

definition flat :: string where
  "flat = [CHR 0xE2, CHR 0x99, CHR 0xAD]"

definition sharp :: string where
  "sharp = [CHR 0xE2, CHR 0x99, CHR 0xAF]"

definition KEY_MAP :: "(jsnum \<times> string) list" where
  "KEY_MAP =
     [(Fin 0, ''1A (A'' @ flat @ ''m)''), (Fin 1, ''1B (B)''),
      (Fin 2, ''2A (E'' @ flat @ ''m)''), (Fin 3, ''2B (F'' @ sharp @ '')''),
      (Fin 4, ''3A (B'' @ flat @ ''m)''), (Fin 5, ''3B (D'' @ flat @ '')''),
      (Fin 6, ''4A (Fm)''), (Fin 7, ''4B (A'' @ flat @ '')''),
      (Fin 8, ''5A (Cm)''), (Fin 9, ''5B (E'' @ flat @ '')''),
      (Fin 10, ''6A (Gm)''), (Fin 11, ''6B (B'' @ flat @ '')''),
      (Fin 12, ''7A (Dm)''), (Fin 13, ''7B (F)''),
      (Fin 14, ''8A (Am)''), (Fin 15, ''8B (C)''),
      (Fin 16, ''9A (Em)''), (Fin 17, ''9B (G)''),
      (Fin 18, ''10A (Bm)''), (Fin 19, ''10B (D)''),
      (Fin 20, ''11A (F'' @ sharp @ ''m)''), (Fin 21, ''11B (A)''),
      (Fin 22, ''12A (D'' @ flat @ ''m)''), (Fin 23, ''12B (E)'')]"

text \<open>\<^verbatim>\<open>KEY_MAP[index] || ''\<close>, the resolution of a key index.\<close>

definition resolveKey :: "jsnum \<Rightarrow> string" where
  "resolveKey idx =
     (case map_of KEY_MAP idx of
        Some label \<Rightarrow> (if label \<noteq> [] then label else [])
      | None \<Rightarrow> [])"

text \<open>
  A deck. A field that only ever receives a coerced value has the type of the coercion; a
  field that the status merger fills with a value of the status object as it is holds a
  \<open>jsval\<close>. \<open>hotcues\<close> does not exist on an empty deck.
\<close>

record deck =
  trackName :: jsval
  artistName :: jsval
  songName :: jsval
  trackLength :: jsnum
  trackUri :: jsval
  trackNetworkPath :: jsval
  sampleRate :: jsnum
  songLoaded :: bool
  songAnalyzed :: bool
  artwork :: jsval
  play :: bool
  playState :: bool
  currentPosition :: jsnum
  currentBPM :: jsval
  trackBPM :: jsval
  speed :: jsval
  speedRange :: jsnum
  syncMode :: jsval
  deckIsMaster :: bool
  masterTempo :: jsval
  currentKeyIndex :: jsnum
  currentKey :: string
  keyLock :: bool
  externalScratchWheelTouch :: bool
  externalMixerVolume :: jsval
  cuePosition :: jsnum
  cuePositionRaw :: jsnum
  loopEnableState :: bool
  currentLoopInPosition :: jsnum
  currentLoopOutPosition :: jsnum
  currentLoopSizeInBeats :: jsnum
  trackLengthRaw :: jsnum
  loopInRaw :: jsnum
  loopOutRaw :: jsnum
  beatPosition :: jsval
  totalBeats :: jsval
  dbSourceName :: jsval
  trackPath :: jsval
  jogColor :: jsval
  hotcues :: "(nat \<rightharpoonup> jsval) option"

record mixer_state =
  ch1Fader :: jsnum
  ch2Fader :: jsnum
  ch3Fader :: jsnum
  ch4Fader :: jsnum
  crossfader :: jsnum

record device_state =
  name :: jsval
  ip :: jsval
  softwareName :: jsval
  softwareVersion :: jsval
  connectionState :: string
  deckCount :: jsnum
  hasSDCard :: bool
  hasUsb :: bool
  activeDeck :: jsnum

text \<open>
  The tree: \<open>decks\<close> is the object whose keys are deck numbers. A key of a JavaScript
  object is the string of the number, and distinct numbers have distinct strings.
\<close>

record state_tree =
  decks :: "jsnum \<rightharpoonup> deck"
  mixer :: mixer_state
  device :: device_state

definition emptyDeck :: deck where
  "emptyDeck =
     \<lparr> trackName = JStr [], artistName = JStr [], songName = JStr [],
       trackLength = Fin 0, trackUri = JStr [], trackNetworkPath = JStr [],
       sampleRate = Fin 0, songLoaded = False, songAnalyzed = False,
       artwork = JNull,
       play = False, playState = False, currentPosition = Fin 0,
       currentBPM = JNum (Fin 0), trackBPM = JNum (Fin 0),
       speed = JNum (Fin 0), speedRange = Fin 0,
       syncMode = JNum (Fin 0), deckIsMaster = False, masterTempo = JNum (Fin 0),
       currentKeyIndex = Fin (-1), currentKey = [], keyLock = False,
       externalScratchWheelTouch = False, externalMixerVolume = JNum (Fin 0),
       cuePosition = Fin 0, cuePositionRaw = Fin 0,
       loopEnableState = False, currentLoopInPosition = Fin 0,
       currentLoopOutPosition = Fin 0, currentLoopSizeInBeats = Fin 0,
       trackLengthRaw = Fin 0, loopInRaw = Fin 0, loopOutRaw = Fin 0,
       beatPosition = JNum (Fin 0), totalBeats = JNum (Fin 0),
       dbSourceName = JStr [], trackPath = JStr [], jogColor = JNull,
       hotcues = None \<rparr>"

definition createEmptyState :: state_tree where
  "createEmptyState =
     \<lparr> decks = [Fin 1 \<mapsto> emptyDeck, Fin 2 \<mapsto> emptyDeck, Fin 3 \<mapsto> emptyDeck,
                Fin 4 \<mapsto> emptyDeck],
       mixer = \<lparr> ch1Fader = Fin 0, ch2Fader = Fin 0, ch3Fader = Fin 0, ch4Fader = Fin 0,
                 crossfader = Fin (1 / 2) \<rparr>,
       device = \<lparr> name = JStr [], ip = JStr [], softwareName = JStr [],
                  softwareVersion = JStr [], connectionState = ''disconnected'',
                  deckCount = Fin 2, hasSDCard = False, hasUsb = False,
                  activeDeck = Fin 1 \<rparr> \<rparr>"

section \<open>The raw state reducers\<close>

text \<open>\<^verbatim>\<open>String(value || '')\<close>, \<^verbatim>\<open>parseFloat(value) || 0\<close> and \<^verbatim>\<open>parseInt(value) || 0\<close>.\<close>

definition string_or_empty :: "(real \<Rightarrow> string) \<Rightarrow> jsval \<Rightarrow> jsval" where
  "string_or_empty ns v = JStr (toStr ns (js_or v (JStr [])))"

definition float_or0 :: "(real \<Rightarrow> string) \<Rightarrow> jsval \<Rightarrow> jsnum" where
  "float_or0 ns v = num_or (parseFloat ns v) (Fin 0)"

definition int_or0 :: "(real \<Rightarrow> string) \<Rightarrow> jsval \<Rightarrow> jsnum" where
  "int_or0 ns v = num_or (parseInt ns v) (Fin 0)"

text \<open>\<^verbatim>\<open>deck.sampleRate > 0 ? raw / deck.sampleRate : 0\<close>.\<close>

definition seconds :: "deck \<Rightarrow> jsnum \<Rightarrow> jsnum" where
  "seconds d raw = (if jgt (sampleRate d) (Fin 0) then jdiv raw (sampleRate d) else Fin 0)"

text \<open>
  The body of the \<^verbatim>\<open>switch\<close> of \<^verbatim>\<open>_applyRawDeckState\<close>, on the deck the number names. A
  key without a \<^verbatim>\<open>case\<close> leaves the deck as it is.
\<close>

definition rawDeckUpdate :: "(real \<Rightarrow> string) \<Rightarrow> string \<Rightarrow> jsval \<Rightarrow> deck \<Rightarrow> deck" where
  "rawDeckUpdate ns key v d =
     (if key = ''ArtistName'' then d\<lparr>artistName := string_or_empty ns v\<rparr>
      else if key = ''SongName'' then
        d\<lparr>songName := string_or_empty ns v, trackName := string_or_empty ns v\<rparr>
      else if key = ''TrackName'' then d\<lparr>trackUri := string_or_empty ns v\<rparr>
      else if key = ''TrackLength'' then
        d\<lparr>trackLengthRaw := float_or0 ns v, trackLength := seconds d (float_or0 ns v)\<rparr>
      else if key = ''TrackUri'' then d\<lparr>trackUri := string_or_empty ns v\<rparr>
      else if key = ''TrackNetworkPath'' then d\<lparr>trackNetworkPath := string_or_empty ns v\<rparr>
      else if key = ''SampleRate'' then
        (let d = d\<lparr>sampleRate := int_or0 ns v\<rparr> in
         if jgt (sampleRate d) (Fin 0) then
           (let d = (if num_truthy (trackLengthRaw d)
                     then d\<lparr>trackLength := jdiv (trackLengthRaw d) (sampleRate d)\<rparr> else d);
                d = (if num_truthy (cuePositionRaw d)
                     then d\<lparr>cuePosition := jdiv (cuePositionRaw d) (sampleRate d)\<rparr> else d);
                d = (if num_truthy (loopInRaw d)
                     then d\<lparr>currentLoopInPosition := jdiv (loopInRaw d) (sampleRate d)\<rparr>
                     else d);
                d = (if num_truthy (loopOutRaw d)
                     then d\<lparr>currentLoopOutPosition := jdiv (loopOutRaw d) (sampleRate d)\<rparr>
                     else d)
            in d)
         else d)
      else if key = ''SongLoaded'' then d\<lparr>songLoaded := truthy v\<rparr>
      else if key = ''SongAnalyzed'' then d\<lparr>songAnalyzed := truthy v\<rparr>
      else if key = ''Play'' then d\<lparr>play := truthy v\<rparr>
      else if key = ''PlayState'' then d\<lparr>playState := truthy v\<rparr>
      else if key = ''PlayStatePath'' then
        (let pathVal = float_or0 ns v in
         if jge pathVal (Fin 0) \<and> jle pathVal (Fin 1) \<and> jgt (trackLength d) (Fin 0) then
           d\<lparr>currentPosition := jmul pathVal (trackLength d)\<rparr>
         else if jgt pathVal (Fin 1) then d\<lparr>currentPosition := seconds d pathVal\<rparr>
         else d)
      else if key = ''CurrentBPM'' then d\<lparr>currentBPM := JNum (float_or0 ns v)\<rparr>
      else if key = ''TrackBPM'' then d\<lparr>trackBPM := JNum (float_or0 ns v)\<rparr>
      else if key = ''Speed'' then d\<lparr>speed := JNum (float_or0 ns v)\<rparr>
      else if key = ''SpeedRange'' then d\<lparr>speedRange := float_or0 ns v\<rparr>
      else if key = ''SyncMode'' then d\<lparr>syncMode := JNum (int_or0 ns v)\<rparr>
      else if key = ''DeckIsMaster'' then d\<lparr>deckIsMaster := truthy v\<rparr>
      else if key = ''MasterTempo'' then d\<lparr>masterTempo := JNum (float_or0 ns v)\<rparr>
      else if key = ''CurrentKeyIndex'' then
        d\<lparr>currentKeyIndex := parseInt ns v, currentKey := resolveKey (parseInt ns v)\<rparr>
      else if key = ''KeyLock'' then d\<lparr>keyLock := (v = JBool True \<or> gt0 ns v)\<rparr>
      else if key = ''ExternalScratchWheelTouch'' then
        d\<lparr>externalScratchWheelTouch := truthy v\<rparr>
      else if key = ''ExternalMixerVolume'' then
        d\<lparr>externalMixerVolume := JNum (float_or0 ns v)\<rparr>
      else if key = ''CuePosition'' then
        d\<lparr>cuePositionRaw := float_or0 ns v, cuePosition := seconds d (float_or0 ns v)\<rparr>
      else if key = ''LoopEnableState'' then d\<lparr>loopEnableState := truthy v\<rparr>
      else if key = ''CurrentLoopInPosition'' then
        d\<lparr>loopInRaw := float_or0 ns v, currentLoopInPosition := seconds d (float_or0 ns v)\<rparr>
      else if key = ''CurrentLoopOutPosition'' then
        d\<lparr>loopOutRaw := float_or0 ns v, currentLoopOutPosition := seconds d (float_or0 ns v)\<rparr>
      else if key = ''CurrentLoopSizeInBeats'' then
        d\<lparr>currentLoopSizeInBeats := float_or0 ns v\<rparr>
      else d)"

text \<open>
  \<^verbatim>\<open>_applyRawDeckState\<close> reads \<^verbatim>\<open>this.state.decks[deckNum]\<close> without a test: where there
  is no such deck, a \<^verbatim>\<open>case\<close> that reads or writes a field of it throws a
  \<^verbatim>\<open>TypeError\<close>. The cases that touch the deck are all of them, but for
  \<^verbatim>\<open>PlayStatePath\<close> with a negative position.
\<close>

datatype error = TypeError

definition deck_keys :: "string list" where
  "deck_keys =
     [''ArtistName'', ''SongName'', ''TrackName'', ''TrackLength'', ''TrackUri'',
      ''TrackNetworkPath'', ''SampleRate'', ''SongLoaded'', ''SongAnalyzed'', ''Play'',
      ''PlayState'', ''PlayStatePath'', ''CurrentBPM'', ''TrackBPM'', ''Speed'',
      ''SpeedRange'', ''SyncMode'', ''DeckIsMaster'', ''MasterTempo'', ''CurrentKeyIndex'',
      ''KeyLock'', ''ExternalScratchWheelTouch'', ''ExternalMixerVolume'', ''CuePosition'',
      ''LoopEnableState'', ''CurrentLoopInPosition'', ''CurrentLoopOutPosition'',
      ''CurrentLoopSizeInBeats'']"

definition touchesDeck :: "(real \<Rightarrow> string) \<Rightarrow> string \<Rightarrow> jsval \<Rightarrow> bool" where
  "touchesDeck ns key v =
     (if key = ''PlayStatePath'' then
        (let pathVal = float_or0 ns v in
         (jge pathVal (Fin 0) \<and> jle pathVal (Fin 1)) \<or> jgt pathVal (Fin 1))
      else key \<in> set deck_keys)"

definition applyRawDeckState ::
  "(real \<Rightarrow> string) \<Rightarrow> jsnum \<Rightarrow> string \<Rightarrow> jsval \<Rightarrow> state_tree \<Rightarrow> error + state_tree" where
  "applyRawDeckState ns deckNum key v s =
     (case decks s deckNum of
        Some d \<Rightarrow> Inr (s\<lparr>decks := (decks s)(deckNum \<mapsto> rawDeckUpdate ns key v d)\<rparr>)
      | None \<Rightarrow> (if touchesDeck ns key v then Inl TypeError else Inr s))"

definition applyMixerState ::
  "(real \<Rightarrow> string) \<Rightarrow> string \<Rightarrow> jsval \<Rightarrow> state_tree \<Rightarrow> state_tree" where
  "applyMixerState ns key v s =
     (if key = ''CH1faderPosition'' then s\<lparr>mixer := (mixer s)\<lparr>ch1Fader := float_or0 ns v\<rparr>\<rparr>
      else if key = ''CH2faderPosition'' then
        s\<lparr>mixer := (mixer s)\<lparr>ch2Fader := float_or0 ns v\<rparr>\<rparr>
      else if key = ''CH3faderPosition'' then
        s\<lparr>mixer := (mixer s)\<lparr>ch3Fader := float_or0 ns v\<rparr>\<rparr>
      else if key = ''CH4faderPosition'' then
        s\<lparr>mixer := (mixer s)\<lparr>ch4Fader := float_or0 ns v\<rparr>\<rparr>
      else if key = ''CrossfaderPosition'' then
        s\<lparr>mixer := (mixer s)\<lparr>crossfader := float_or0 ns v\<rparr>\<rparr>
      else s)"

section \<open>The path dispatcher\<close>

text \<open>
  \<^verbatim>\<open>_processRawStateChange\<close>. The debug lines it prints to the console are left out: they
  change nothing of the state. A deck update is only made for a deck the tree has.
\<close>

definition deckKey :: "string \<Rightarrow> string" where
  "deckKey rest =
     (if rest = ''Track/CurrentBPM'' then ''TrackBPM'' else replace_first rest ''Track/'' [])"

definition setActiveDeck :: "(real \<Rightarrow> string) \<Rightarrow> jsval \<Rightarrow> state_tree \<Rightarrow> state_tree" where
  "setActiveDeck ns v s =
     (let strVal = toStr ns v in
      if str_includes strVal ''Deck'' then
        s\<lparr>device := (device s)
             \<lparr>activeDeck := num_or (parseInt_str (replace_first strVal ''Deck'' [])) (Fin 1)\<rparr>\<rparr>
      else s\<lparr>device := (device s)\<lparr>activeDeck := num_or (parseInt_str strVal) (Fin 1)\<rparr>\<rparr>)"

definition processRawStateChange ::
  "(real \<Rightarrow> string) \<Rightarrow> string \<Rightarrow> jsval \<Rightarrow> state_tree \<Rightarrow> error + state_tree" where
  "processRawStateChange ns path v s =
     (if path = [] then Inr s
      else case match_deck ''/Engine/Deck'' path of
        Some (digit, rest) \<Rightarrow>
          (let deckNum = parseInt_str [digit]; key = deckKey rest in
           if decks s deckNum \<noteq> None then applyRawDeckState ns deckNum key v s else Inr s)
      | None \<Rightarrow>
          (case match_mixer path of
             Some key \<Rightarrow> Inr (applyMixerState ns key v s)
           | None \<Rightarrow>
               (let s = (if str_includes path ''DeckCount''
                         then s\<lparr>device := (device s)
                                  \<lparr>deckCount := num_or (parseInt ns v) (Fin 2)\<rparr>\<rparr>
                         else s)
                in case match_deck ''/Client/Deck'' path of
                  Some (digit, key) \<Rightarrow>
                    (let deckNum = parseInt_str [digit] in
                     if decks s deckNum \<noteq> None then applyRawDeckState ns deckNum key v s
                     else Inr s)
                | None \<Rightarrow>
                    if path = ''/Client/Librarian/DevicesController/HasSDCardConnected'' then
                      Inr (s\<lparr>device := (device s)\<lparr>hasSDCard := truthy v\<rparr>\<rparr>)
                    else if path = ''/Client/Librarian/DevicesController/HasUsbDeviceConnected''
                    then Inr (s\<lparr>device := (device s)\<lparr>hasUsb := truthy v\<rparr>\<rparr>)
                    else if path = ''/GUI/Decks/Deck/ActiveDeck'' then Inr (setActiveDeck ns v s)
                    else Inr s)))"

section \<open>The player status merger\<close>

text \<open>
  A status object is a dictionary from field names to values. Reading a field that the
  object does not have gives \<^verbatim>\<open>undefined\<close>, as reading one that holds \<^verbatim>\<open>undefined\<close> does.
\<close>

type_synonym status = "string \<rightharpoonup> jsval"

definition field :: "status \<Rightarrow> string \<Rightarrow> jsval" where
  "field st k = (case st k of Some v \<Rightarrow> v | None \<Rightarrow> JUndefined)"

text \<open>
  \<^verbatim>\<open>_resolveDeckNumber\<close>. The lookup table is an object literal: besides its own eight keys
  it answers the names it inherits from \<^verbatim>\<open>Object.prototype\<close>, with a function or an object,
  which is truthy and is no number.
\<close>

datatype deck_ref = NoDeck | DeckNum jsnum | Inherited string

definition deck_letters :: "(string \<times> jsnum) list" where
  "deck_letters =
     [(''A'', Fin 1), (''B'', Fin 2), (''C'', Fin 3), (''D'', Fin 4),
      (''1'', Fin 1), (''2'', Fin 2), (''3'', Fin 3), (''4'', Fin 4)]"

definition object_prototype_names :: "string list" where
  "object_prototype_names =
     [''constructor'', ''hasOwnProperty'', ''isPrototypeOf'', ''propertyIsEnumerable'',
      ''toLocaleString'', ''toString'', ''valueOf'', ''__proto__'', ''__defineGetter__'',
      ''__defineSetter__'', ''__lookupGetter__'', ''__lookupSetter__'']"

definition resolveDeckNumber :: "(real \<Rightarrow> string) \<Rightarrow> status \<Rightarrow> deck_ref" where
  "resolveDeckNumber ns st =
     (if truthy (field st ''deck'') then
        (let k = toStr ns (field st ''deck'') in
         case map_of deck_letters k of
           Some n \<Rightarrow> (if num_truthy n then DeckNum n else NoDeck)
         | None \<Rightarrow> (if k \<in> set object_prototype_names then Inherited k else NoDeck))
      else if truthy (field st ''player'') then
        (let n = parseInt ns (field st ''player'') in
         if num_truthy n then DeckNum n else NoDeck)
      else NoDeck)"

text \<open>
  \<^verbatim>\<open>this.state.decks[deckNum]\<close> for a resolved deck number: the keys of \<open>decks\<close> are numbers,
  so that an inherited function names no deck.
\<close>

definition deckAt :: "state_tree \<Rightarrow> deck_ref \<Rightarrow> deck option" where
  "deckAt s r = (case r of DeckNum n \<Rightarrow> decks s n | _ \<Rightarrow> None)"

text \<open>\<^verbatim>\<open>if (status.k !== undefined) ...\<close>: the update \<open>f\<close> is made with the value of the field.\<close>

definition when_present :: "status \<Rightarrow> string \<Rightarrow> (jsval \<Rightarrow> deck \<Rightarrow> deck) \<Rightarrow> deck \<Rightarrow> deck" where
  "when_present st k f d = (if field st k \<noteq> JUndefined then f (field st k) d else d)"

text \<open>
  The hotcue loop: \<^verbatim>\<open>hotcue${i}\<close> is the name followed by the decimal digits of \<open>i\<close>.
\<close>

definition digit_char :: "nat \<Rightarrow> char" where
  "digit_char n = ''0123456789'' ! n"

fun nat_str :: "nat \<Rightarrow> string" where
  "nat_str n = (if n < 10 then [digit_char n] else nat_str (n div 10) @ [digit_char (n mod 10)])"

declare nat_str.simps [simp del]

definition hotcue_key :: "nat \<Rightarrow> string" where
  "hotcue_key i = ''hotcue'' @ nat_str i"

definition hotcueStep :: "status \<Rightarrow> deck \<Rightarrow> nat \<Rightarrow> deck" where
  "hotcueStep st d i =
     (if truthy (field st (hotcue_key i)) then
        (let d = (if hotcues d = None then d\<lparr>hotcues := Some Map.empty\<rparr> else d) in
         d\<lparr>hotcues := map_option (\<lambda>m. m(i \<mapsto> field st (hotcue_key i))) (hotcues d)\<rparr>)
      else d)"

definition mergeDeck :: "(real \<Rightarrow> string) \<Rightarrow> status \<Rightarrow> deck \<Rightarrow> deck" where
  "mergeDeck ns st d =
     (let d = when_present st ''title'' (\<lambda>v d. d\<lparr>trackName := js_or v (JStr [])\<rparr>) d;
          d = when_present st ''title'' (\<lambda>v d. d\<lparr>songName := js_or v (JStr [])\<rparr>) d;
          d = when_present st ''artist'' (\<lambda>v d. d\<lparr>artistName := js_or v (JStr [])\<rparr>) d;
          d = when_present st ''songLoaded'' (\<lambda>v d. d\<lparr>songLoaded := truthy v\<rparr>) d;
          d = when_present st ''play'' (\<lambda>v d. d\<lparr>play := truthy v\<rparr>) d;
          d = when_present st ''playState'' (\<lambda>v d. d\<lparr>playState := truthy v\<rparr>) d;
          d = when_present st ''currentBpm''
                (\<lambda>v d. if gt0 ns v then d\<lparr>currentBPM := v\<rparr> else d) d;
          d = when_present st ''trackBpm''
                (\<lambda>v d. if gt0 ns v then d\<lparr>trackBPM := v\<rparr> else d) d;
          d = when_present st ''speed'' (\<lambda>v d. d\<lparr>speed := v\<rparr>) d;
          d = when_present st ''syncMode'' (\<lambda>v d. d\<lparr>syncMode := v\<rparr>) d;
          d = when_present st ''masterStatus'' (\<lambda>v d. d\<lparr>deckIsMaster := truthy v\<rparr>) d;
          d = when_present st ''masterTempo'' (\<lambda>v d. d\<lparr>masterTempo := v\<rparr>) d;
          d = when_present st ''externalMixerVolume''
                (\<lambda>v d. d\<lparr>externalMixerVolume := v\<rparr>) d;
          d = when_present st ''trackNetworkPath''
                (\<lambda>v d. d\<lparr>trackNetworkPath := js_or v (JStr [])\<rparr>) d;
          d = when_present st ''trackPath''
                (\<lambda>v d. d\<lparr>trackPath := js_or v (JStr []), trackUri := js_or v (JStr [])\<rparr>) d;
          d = when_present st ''fileLocation'' (\<lambda>v d. d\<lparr>trackUri := js_or v (trackUri d)\<rparr>) d;
          d = when_present st ''dbSourceName''
                (\<lambda>v d. d\<lparr>dbSourceName := js_or v (JStr [])\<rparr>) d;
          d = when_present st ''jogColor'' (\<lambda>v d. d\<lparr>jogColor := v\<rparr>) d
      in foldl (hotcueStep st) d [1 ..< 9])"

definition mergeDevice :: "status \<Rightarrow> device_state \<Rightarrow> device_state" where
  "mergeDevice st dev =
     (let dev = (if truthy (field st ''address'') then dev\<lparr>ip := field st ''address''\<rparr> else dev);
          dev = (if truthy (field st ''source'') then dev\<lparr>name := field st ''source''\<rparr> else dev)
      in dev)"

text \<open>
  \<^verbatim>\<open>_applyPlayerStatus\<close>. \<open>None\<close> is a missing status (\<^verbatim>\<open>if (!status) return\<close>).
\<close>

definition applyPlayerStatus ::
  "(real \<Rightarrow> string) \<Rightarrow> status option \<Rightarrow> state_tree \<Rightarrow> state_tree" where
  "applyPlayerStatus ns status s =
     (case status of
        None \<Rightarrow> s
      | Some st \<Rightarrow>
          (let deckNum = resolveDeckNumber ns st in
           if deckNum = NoDeck \<or> deckAt s deckNum = None then s
           else case deckNum of
             DeckNum n \<Rightarrow>
               (case decks s n of
                  Some d \<Rightarrow> s\<lparr>decks := (decks s)(n \<mapsto> mergeDeck ns st d),
                              device := mergeDevice st (device s)\<rparr>
                | None \<Rightarrow> s)
           | _ \<Rightarrow> s))"

text \<open>
  Two updates of a deck in sequence (an exception ends the sequence), and the reading of a
  field of a deck from the result.
\<close>

definition applyBoth ::
  "(real \<Rightarrow> string) \<Rightarrow> jsnum \<Rightarrow> string \<Rightarrow> jsval \<Rightarrow> string \<Rightarrow> jsval \<Rightarrow> state_tree
     \<Rightarrow> error + state_tree" where
  "applyBoth ns deckNum key1 v1 key2 v2 s =
     (case applyRawDeckState ns deckNum key1 v1 s of
        Inl e \<Rightarrow> Inl e
      | Inr s1 \<Rightarrow> applyRawDeckState ns deckNum key2 v2 s1)"

definition deckField :: "(deck \<Rightarrow> 'a) \<Rightarrow> jsnum \<Rightarrow> error + state_tree \<Rightarrow> 'a option" where
  "deckField sel deckNum r =
     (case r of Inl e \<Rightarrow> None | Inr s \<Rightarrow> map_option sel (decks s deckNum))"

text \<open>\<^verbatim>\<open>deck.hotcues[i]\<close> where the deck has hotcues, and nothing where it has none.\<close>

definition hotcueAt :: "deck \<Rightarrow> nat \<Rightarrow> jsval option" where
  "hotcueAt d i = (case hotcues d of None \<Rightarrow> None | Some m \<Rightarrow> m i)"

section \<open>The manager and its reset\<close>

text \<open>
  The manager holds the tree and the bookkeeping of the connection. The library instance
  and the timer of the demo mode are opaque handles; the discovered devices are a dictionary
  from an address to the description of a device.
\<close>

record manager =
  stagelinqInstance :: "nat option"
  connected :: bool
  demoMode :: bool
  state :: state_tree
  demoInterval :: "nat option"
  discoveredDevices :: "jsval \<rightharpoonup> jsval"
  connectedIp :: jsval
  dbPaths :: "jsval \<rightharpoonup> jsval"

text \<open>The constructor: \<open>demo\<close> is \<^verbatim>\<open>options.demo || false\<close>.\<close>

definition newManager :: "bool \<Rightarrow> manager" where
  "newManager demo =
     \<lparr> stagelinqInstance = None, connected = False, demoMode = demo,
       state = createEmptyState, demoInterval = None, discoveredDevices = Map.empty,
       connectedIp = JNull, dbPaths = Map.empty \<rparr>"

datatype event =
    DeviceDisconnected jsval jsval
  | StateUpdate state_tree

text \<open>
  \<^verbatim>\<open>stop\<close>: the new manager and the events it emits, in order. A failure of the library's
  \<^verbatim>\<open>disconnect\<close> is caught and ignored.
\<close>

definition stop :: "manager \<Rightarrow> manager \<times> event list" where
  "stop m =
     (let wasConnected = connected m;
          prevDevice = device (state m);
          m' = m\<lparr>demoInterval := None, stagelinqInstance := None, connected := False,
                 connectedIp := JNull, state := createEmptyState,
                 discoveredDevices := Map.empty\<rparr>
      in (m', (if wasConnected then [DeviceDisconnected (name prevDevice) (ip prevDevice)]
               else [])
              @ [StateUpdate (state m')]))"

section \<open>Properties of the reducers\<close>

subsection \<open>Built-in conversions on whole numbers\<close>

lemma digit_1: "is_digit CHR ''1''"
  by (simp add: is_digit_def radix_digit_def digit_of_def)

lemma trim_start_1: "trim_start ''1'' = ''1''"
  by (subst trim_start.simps) (simp add: white_space_def line_terminators_def)

lemma parseInt_str_1: "parseInt_str ''1'' = Fin 1"
  by (simp add: parseInt_str_def trim_start_1 radix_digit_def digit_of_def digits_val_def)

lemma trim_start_left: "trim_start ''left'' = ''left''"
  by (subst trim_start.simps) (simp add: white_space_def line_terminators_def)

lemma parseInt_str_left: "parseInt_str ''left'' = NaN"
  by (simp add: parseInt_str_def trim_start_left radix_digit_def digit_of_def digits_val_def)

lemma parseInt_num_7: "parseInt_num (Fin 7) = Fin 7"
  by (simp add: parseInt_num_def)

lemma parseInt_num_int:
  assumes "\<bar>i::int\<bar> < 10 ^ 21"
  shows "parseInt_num (Fin (of_int i)) = Fin (of_int i)"
proof (cases "i = 0")
  case True
  then show ?thesis by (simp add: parseInt_num_def)
next
  case False
  have ab: "\<bar>real_of_int i\<bar> = real_of_int \<bar>i\<bar>" by simp
  from False have "1 \<le> \<bar>i\<bar>" by arith
  then have one: "1 \<le> real_of_int \<bar>i\<bar>" by (simp only: of_int_1_le_iff)
  have "(1::real) / 10 ^ 6 < 1" by simp
  with one have small: "\<not> real_of_int \<bar>i\<bar> < 1 / 10 ^ 6" by linarith
  have "real_of_int \<bar>i\<bar> < real_of_int (10 ^ 21)" using assms by (simp only: of_int_less_iff)
  then have big: "real_of_int \<bar>i\<bar> < 10 ^ 21" by simp
  have nz: "real_of_int \<bar>i\<bar> \<noteq> 0" using one by linarith
  have sg: "(if i < 0 then - 1 else 1) * \<bar>i\<bar> = i" by simp
  have "parseInt_num (Fin (of_int i)) =
        Fin (real_of_int ((if real_of_int i < 0 then - 1 else 1) * \<lfloor>real_of_int \<bar>i\<bar>\<rfloor>))"
    unfolding parseInt_num_def Let_def ab using small big nz by simp
  also have "\<dots> = Fin (real_of_int ((if i < 0 then - 1 else 1) * \<bar>i\<bar>))"
    by (simp only: floor_of_int of_int_less_0_iff)
  finally show ?thesis by (simp only: sg)
qed

subsection \<open>The frame of the raw reducers\<close>

lemma applyRawDeckState_found:
  "decks s n = Some d \<Longrightarrow>
   applyRawDeckState ns n key v s = Inr (s\<lparr>decks := (decks s)(n \<mapsto> rawDeckUpdate ns key v d)\<rparr>)"
  by (simp add: applyRawDeckState_def)

text \<open>
  C9. A raw update of deck \<open>n\<close> succeeds when the tree has the deck, and a successful
  update leaves the mixer, the device and every other deck as they were. A mixer update
  leaves all the decks and the device as they were.
\<close>

theorem reducers_frame:
  "(\<forall>d. decks s n = Some d \<longrightarrow> (\<exists>s'. applyRawDeckState ns n key v s = Inr s'))
   \<and> (\<forall>s'. applyRawDeckState ns n key v s = Inr s' \<longrightarrow>
         mixer s' = mixer s \<and> device s' = device s \<and> (\<forall>m. m \<noteq> n \<longrightarrow> decks s' m = decks s m))
   \<and> decks (applyMixerState ns k w s) = decks s
   \<and> device (applyMixerState ns k w s) = device s"
  by (auto simp: applyRawDeckState_def applyMixerState_def split: option.splits if_splits)

theorem reducers_frame_witness:
  "\<exists>s'. applyRawDeckState (\<lambda>x. []) (Fin 1) ''Play'' (JBool True) createEmptyState = Inr s'
     \<and> mixer s' = mixer createEmptyState \<and> device s' = device createEmptyState
     \<and> decks s' (Fin 2) = decks createEmptyState (Fin 2)
     \<and> map_option play (decks s' (Fin 1)) = Some True"
proof -
  have found: "decks createEmptyState (Fin 1) = Some emptyDeck"
    by (simp add: createEmptyState_def)
  from reducers_frame [of createEmptyState "Fin 1" "\<lambda>x. []" "''Play''" "JBool True"] found
  obtain s' where s': "applyRawDeckState (\<lambda>x. []) (Fin 1) ''Play'' (JBool True) createEmptyState = Inr s'"
    and fr: "mixer s' = mixer createEmptyState" "device s' = device createEmptyState"
       "\<forall>m. m \<noteq> Fin 1 \<longrightarrow> decks s' m = decks createEmptyState m"
    by blast
  have "map_option play (decks s' (Fin 1)) = Some True"
    using s' found by (auto simp: applyRawDeckState_def rawDeckUpdate_def)
  moreover have "decks s' (Fin 2) = decks createEmptyState (Fin 2)"
    using fr(3) by simp
  ultimately show ?thesis using s' fr by blast
qed

subsection \<open>Status updates that name no deck\<close>

text \<open>
  C8. A status update is dropped whole, the tree staying as it was, deck, mixer and device
  alike, when it names no deck: it has neither a deck letter nor a player number, or its
  deck letter is none of the table, or its player number does not parse to a number other
  than zero, or the number it resolves to is no deck of the tree. A missing status is
  dropped too. The merger returns a tree in every case: it has no error to raise.
\<close>

theorem status_dropped:
  "(\<not> truthy (field st ''deck'') \<and> \<not> truthy (field st ''player'')
      \<longrightarrow> applyPlayerStatus ns (Some st) s = s)
   \<and> (truthy (field st ''deck'') \<and> map_of deck_letters (toStr ns (field st ''deck'')) = None
      \<longrightarrow> applyPlayerStatus ns (Some st) s = s)
   \<and> (\<not> truthy (field st ''deck'') \<and> \<not> num_truthy (parseInt ns (field st ''player''))
      \<longrightarrow> applyPlayerStatus ns (Some st) s = s)
   \<and> (\<forall>n. resolveDeckNumber ns st = DeckNum n \<and> decks s n = None
      \<longrightarrow> applyPlayerStatus ns (Some st) s = s)
   \<and> applyPlayerStatus ns None s = s"
  by (auto simp: applyPlayerStatus_def resolveDeckNumber_def deckAt_def Let_def
           split: option.splits deck_ref.splits)

theorem status_dropped_witness:
  "applyPlayerStatus (\<lambda>x. []) (Some [''title'' \<mapsto> JStr ''Strobe'', ''address'' \<mapsto> JStr ''10.0.0.5''])
      createEmptyState = createEmptyState
   \<and> applyPlayerStatus (\<lambda>x. []) (Some [''deck'' \<mapsto> JStr ''E'', ''play'' \<mapsto> JBool True])
      createEmptyState = createEmptyState
   \<and> applyPlayerStatus (\<lambda>x. []) (Some [''player'' \<mapsto> JStr ''left'', ''play'' \<mapsto> JBool True])
      createEmptyState = createEmptyState
   \<and> applyPlayerStatus (\<lambda>x. []) (Some [''player'' \<mapsto> JNum (Fin 7), ''source'' \<mapsto> JStr ''SC6000''])
      createEmptyState = createEmptyState"
proof -
  let ?ns = "\<lambda>x::real. []::string"
  let ?a = "[''title'' \<mapsto> JStr ''Strobe'', ''address'' \<mapsto> JStr ''10.0.0.5'']"
  let ?b = "[''deck'' \<mapsto> JStr ''E'', ''play'' \<mapsto> JBool True]"
  let ?c = "[''player'' \<mapsto> JStr ''left'', ''play'' \<mapsto> JBool True]"
  let ?d = "[''player'' \<mapsto> JNum (Fin 7), ''source'' \<mapsto> JStr ''SC6000'']"
  have a: "\<not> truthy (field ?a ''deck'') \<and> \<not> truthy (field ?a ''player'')"
    by (simp add: field_def)
  have b: "truthy (field ?b ''deck'') \<and> map_of deck_letters (toStr ?ns (field ?b ''deck'')) = None"
    by (simp add: field_def deck_letters_def)
  have c: "\<not> truthy (field ?c ''deck'') \<and> \<not> num_truthy (parseInt ?ns (field ?c ''player''))"
    by (simp add: field_def num_truthy_def parseInt_str_left)
  have d: "resolveDeckNumber ?ns ?d = DeckNum (Fin 7) \<and> decks createEmptyState (Fin 7) = None"
    by (simp add: resolveDeckNumber_def field_def parseInt_num_7 num_truthy_def createEmptyState_def)
  show ?thesis
    using status_dropped [of ?a ?ns createEmptyState] a
      status_dropped [of ?b ?ns createEmptyState] b
      status_dropped [of ?c ?ns createEmptyState] c
      status_dropped [of ?d ?ns createEmptyState] d
    by blast
qed

subsection \<open>The reset\<close>

text \<open>
  C3, as amended. After \<^verbatim>\<open>stop\<close> the tree is the empty tree, whatever it was before: each
  of the four decks is the empty deck, whose booleans are false, whose strings are empty,
  whose artwork and jog colour are \<^verbatim>\<open>null\<close>, which has no hotcues, and whose numbers are 0
  but for the key index, which is -1.
\<close>

theorem reset_is_empty_state:
  "state (fst (stop m)) = createEmptyState
   \<and> decks (state (fst (stop m))) (Fin 1) = Some emptyDeck
   \<and> decks (state (fst (stop m))) (Fin 2) = Some emptyDeck
   \<and> decks (state (fst (stop m))) (Fin 3) = Some emptyDeck
   \<and> decks (state (fst (stop m))) (Fin 4) = Some emptyDeck
   \<and> emptyDeck =
       \<lparr> trackName = JStr [], artistName = JStr [], songName = JStr [],
         trackLength = Fin 0, trackUri = JStr [], trackNetworkPath = JStr [],
         sampleRate = Fin 0, songLoaded = False, songAnalyzed = False,
         artwork = JNull,
         play = False, playState = False, currentPosition = Fin 0,
         currentBPM = JNum (Fin 0), trackBPM = JNum (Fin 0),
         speed = JNum (Fin 0), speedRange = Fin 0,
         syncMode = JNum (Fin 0), deckIsMaster = False, masterTempo = JNum (Fin 0),
         currentKeyIndex = Fin (- 1), currentKey = [], keyLock = False,
         externalScratchWheelTouch = False, externalMixerVolume = JNum (Fin 0),
         cuePosition = Fin 0, cuePositionRaw = Fin 0,
         loopEnableState = False, currentLoopInPosition = Fin 0,
         currentLoopOutPosition = Fin 0, currentLoopSizeInBeats = Fin 0,
         trackLengthRaw = Fin 0, loopInRaw = Fin 0, loopOutRaw = Fin 0,
         beatPosition = JNum (Fin 0), totalBeats = JNum (Fin 0),
         dbSourceName = JStr [], trackPath = JStr [], jogColor = JNull,
         hotcues = None \<rparr>"
  by (simp add: stop_def createEmptyState_def Let_def emptyDeck_def)

text \<open>
  The claim as it was stated asks for every numeric field to be 0 after the reset: the key
  index of deck 1 is not, on a manager that was just made and stopped.
\<close>

theorem reset_numeric_counterexample:
  "currentKeyIndex (the (decks (state (fst (stop (newManager False)))) (Fin 1))) \<noteq> Fin 0"
  by (simp add: stop_def createEmptyState_def Let_def emptyDeck_def)

subsection \<open>The key index\<close>

lemma resolveKey_in_range:
  assumes "0 \<le> (k::int)" "k \<le> 23"
  shows "resolveKey (Fin (of_int k)) \<noteq> []"
proof -
  have "k \<in> {23, 22, 21, 20, 19, 18, 17, 16, 15, 14, 13, 12, 11, 10, 9, 8, 7, 6, 5, 4, 3,
         2, 1, 0}"
    using assms by simp arith
  then show ?thesis
    by (auto simp: resolveKey_def KEY_MAP_def)
qed

lemma resolveKey_out_of_range:
  assumes "(i::int) < 0 \<or> 23 < i"
  shows "resolveKey (Fin (of_int i)) = []"
  using assms by (auto simp: resolveKey_def KEY_MAP_def)

text \<open>
  C7. The label of a whole key index from 0 to 23 is not empty, and the label of any other
  whole number is empty. The resolution is a total function: there is no index at which it
  fails. Through the reducer, a \<^verbatim>\<open>CurrentKeyIndex\<close> update with a whole number (below
  \<open>10\<^sup>2\<^sup>1\<close> in size, where \<^verbatim>\<open>parseInt\<close> reads all of it) on a deck of the tree succeeds, and
  stores the index and its label.
\<close>

theorem key_resolution:
  "(\<forall>i::int. 0 \<le> i \<and> i \<le> 23 \<longrightarrow> resolveKey (Fin (of_int i)) \<noteq> [])
   \<and> (\<forall>i::int. i < 0 \<or> 23 < i \<longrightarrow> resolveKey (Fin (of_int i)) = [])
   \<and> (\<forall>i::int. \<forall>d. \<bar>i\<bar> < 10 ^ 21 \<and> decks s n = Some d \<longrightarrow>
         (\<exists>s'. applyRawDeckState ns n ''CurrentKeyIndex'' (JNum (Fin (of_int i))) s = Inr s'
            \<and> deckField currentKeyIndex n (Inr s') = Some (Fin (of_int i))
            \<and> deckField currentKey n (Inr s') = Some (resolveKey (Fin (of_int i)))))"
proof (intro conjI allI impI)
  fix i :: int
  assume "0 \<le> i \<and> i \<le> 23"
  then show "resolveKey (Fin (of_int i)) \<noteq> []" by (simp add: resolveKey_in_range)
next
  fix i :: int
  assume "i < 0 \<or> 23 < i"
  then show "resolveKey (Fin (of_int i)) = []" by (rule resolveKey_out_of_range)
next
  fix i :: int and d
  assume h: "\<bar>i\<bar> < 10 ^ 21 \<and> decks s n = Some d"
  then have p: "parseInt ns (JNum (Fin (of_int i))) = Fin (of_int i)"
    by (simp add: parseInt_num_int)
  have u: "rawDeckUpdate ns ''CurrentKeyIndex'' (JNum (Fin (of_int i))) d =
        d\<lparr>currentKeyIndex := Fin (of_int i), currentKey := resolveKey (Fin (of_int i))\<rparr>"
    unfolding rawDeckUpdate_def p by simp
  show "\<exists>s'. applyRawDeckState ns n ''CurrentKeyIndex'' (JNum (Fin (of_int i))) s = Inr s'
            \<and> deckField currentKeyIndex n (Inr s') = Some (Fin (of_int i))
            \<and> deckField currentKey n (Inr s') = Some (resolveKey (Fin (of_int i)))"
    using h by (simp add: applyRawDeckState_def u deckField_def)
qed

theorem key_resolution_witness:
  "resolveKey (Fin 14) = ''8A (Am)'' \<and> resolveKey (Fin 24) = [] \<and> resolveKey (Fin (- 1)) = []
   \<and> deckField currentKey (Fin 2)
         (applyRawDeckState (\<lambda>x. []) (Fin 2) ''CurrentKeyIndex'' (JNum (Fin 14)) createEmptyState)
       = Some ''8A (Am)''"
proof -
  have r14: "resolveKey (Fin 14) = ''8A (Am)''" by (simp add: resolveKey_def KEY_MAP_def)
  have d2: "decks createEmptyState (Fin 2) = Some emptyDeck" by (simp add: createEmptyState_def)
  have "\<bar>14::int\<bar> < 10 ^ 21 \<and> decks createEmptyState (Fin 2) = Some emptyDeck"
    using d2 by simp
  with key_resolution [of createEmptyState "Fin 2" "\<lambda>x. []"]
  have "\<exists>s'. applyRawDeckState (\<lambda>x. []) (Fin 2) ''CurrentKeyIndex'' (JNum (Fin (of_int 14)))
            createEmptyState = Inr s'
          \<and> deckField currentKey (Fin 2) (Inr s') = Some (resolveKey (Fin (of_int 14)))"
    by blast
  then have e: "deckField currentKey (Fin 2)
         (applyRawDeckState (\<lambda>x. []) (Fin 2) ''CurrentKeyIndex'' (JNum (Fin 14)) createEmptyState)
       = Some ''8A (Am)''"
    using r14 by auto
  have out: "\<forall>i::int. i < 0 \<or> 23 < i \<longrightarrow> resolveKey (Fin (of_int i)) = []"
    using key_resolution [of createEmptyState "Fin 2" "\<lambda>x. []"] by blast
  have "resolveKey (Fin (of_int 24)) = []" using out by (rule allE [where x = 24]) simp
  moreover have "resolveKey (Fin (of_int (- 1))) = []"
    using out by (rule allE [where x = "- 1"]) simp
  ultimately show ?thesis using r14 e by simp
qed

subsection \<open>The track tempo and the playing tempo\<close>

lemma match_deck_skip:
  "CHR ''/'' \<notin> set p \<Longrightarrow> match_deck (CHR ''/'' # pre) (p @ s) = match_deck (CHR ''/'' # pre) s"
  by (induction p) auto

lemma engine_track_bpm_match:
  "match_deck ''/Engine/Deck'' ''/Engine/Deck1/Track/CurrentBPM''
     = Some (CHR ''1'', ''Track/CurrentBPM'')"
  by (simp add: digit_1 line_terminators_def)

lemma rawDeckUpdate_TrackBPM:
  "rawDeckUpdate ns ''TrackBPM'' v d = d\<lparr>trackBPM := JNum (float_or0 ns v)\<rparr>"
  by (simp add: rawDeckUpdate_def)

lemma float_or0_128: "float_or0 ns (JNum (Fin 128)) = Fin 128"
  by (simp add: float_or0_def num_or_def num_truthy_def)

text \<open>
  C4. A raw state change on the path \<^verbatim>\<open>/Engine/Deck1/Track/CurrentBPM\<close> (after any prefix
  without a slash) with the value 128 succeeds on a tree that has deck 1, and the new tree
  is the old one with the \<open>trackBPM\<close> of deck 1 set to 128: its \<open>currentBPM\<close> is what it
  was.
\<close>

theorem track_bpm_isolation:
  assumes "CHR ''/'' \<notin> set p" and "decks s (Fin 1) = Some d"
  shows "processRawStateChange ns (p @ ''/Engine/Deck1/Track/CurrentBPM'') (JNum (Fin 128)) s
           = Inr (s\<lparr>decks := (decks s)(Fin 1 \<mapsto> d\<lparr>trackBPM := JNum (Fin 128)\<rparr>)\<rparr>)
         \<and> deckField trackBPM (Fin 1)
             (processRawStateChange ns (p @ ''/Engine/Deck1/Track/CurrentBPM'') (JNum (Fin 128)) s)
           = Some (JNum (Fin 128))
         \<and> deckField currentBPM (Fin 1)
             (processRawStateChange ns (p @ ''/Engine/Deck1/Track/CurrentBPM'') (JNum (Fin 128)) s)
           = Some (currentBPM d)"
proof -
  let ?path = "p @ ''/Engine/Deck1/Track/CurrentBPM''"
  have m: "match_deck ''/Engine/Deck'' ?path = Some (CHR ''1'', ''Track/CurrentBPM'')"
    unfolding match_deck_skip [OF assms(1)] by (rule engine_track_bpm_match)
  have k: "deckKey ''Track/CurrentBPM'' = ''TrackBPM''" by (simp add: deckKey_def)
  have ne: "?path \<noteq> []" by simp
  have r: "processRawStateChange ns ?path (JNum (Fin 128)) s
           = Inr (s\<lparr>decks := (decks s)(Fin 1 \<mapsto> d\<lparr>trackBPM := JNum (Fin 128)\<rparr>)\<rparr>)"
    unfolding processRawStateChange_def
    using ne assms(2)
    by (simp add: m k parseInt_str_1 Let_def applyRawDeckState_found rawDeckUpdate_TrackBPM
          float_or0_128 del: append_is_Nil_conv)
  show ?thesis unfolding r by (simp add: deckField_def)
qed

theorem track_bpm_isolation_witness:
  "deckField trackBPM (Fin 1)
     (processRawStateChange (\<lambda>x. []) ''/Engine/Deck1/Track/CurrentBPM'' (JNum (Fin 128))
        createEmptyState) = Some (JNum (Fin 128))
   \<and> deckField currentBPM (Fin 1)
     (processRawStateChange (\<lambda>x. []) ''/Engine/Deck1/Track/CurrentBPM'' (JNum (Fin 128))
        createEmptyState) = Some (JNum (Fin 0))"
proof -
  have a: "CHR ''/'' \<notin> set []" by simp
  have b: "decks createEmptyState (Fin 1) = Some emptyDeck" by (simp add: createEmptyState_def)
  have c: "currentBPM emptyDeck = JNum (Fin 0)" by (simp add: emptyDeck_def)
  note t = track_bpm_isolation [OF a b, of "\<lambda>x. []", unfolded append_Nil c]
  show ?thesis using t by blast
qed

subsection \<open>The dispatcher never fails\<close>

text \<open>
  The dispatcher only updates a deck that the tree has, so that the exception of the deck
  reducer never leaves it.
\<close>

lemma applyRawDeckState_guarded:
  "decks s n \<noteq> None \<Longrightarrow> \<exists>s'. applyRawDeckState ns n key v s = Inr s'"
  by (auto simp: applyRawDeckState_def)

lemma guarded_update_total:
  "\<exists>s'. (if decks s n \<noteq> None then applyRawDeckState ns n key v s else Inr s) = Inr s'"
  using applyRawDeckState_guarded [of s n ns key v] by auto

lemma if_chain_total:
  "\<exists>s'. (if a then Inr x else if b then Inr y else if c then Inr z else Inr w) = Inr s'"
  by auto

lemma processRawStateChange_total: "\<exists>s'. processRawStateChange ns path v s = Inr s'"
proof (cases "path = []")
  case True
  then show ?thesis by (simp add: processRawStateChange_def)
next
  case False
  show ?thesis
  proof (cases "match_deck ''/Engine/Deck'' path")
    case (Some a)
    then show ?thesis
      unfolding processRawStateChange_def Let_def
      by (simp only: False if_False option.case split_beta guarded_update_total)
  next
    case None
    note engine = None
    show ?thesis
    proof (cases "match_mixer path")
      case (Some key)
      then show ?thesis
        unfolding processRawStateChange_def Let_def
        by (simp only: False engine if_False option.case sum.inject simp_thms)
    next
      case None
      note mix = None
      show ?thesis
      proof (cases "match_deck ''/Client/Deck'' path")
        case (Some a)
        then show ?thesis
          unfolding processRawStateChange_def Let_def
          by (simp only: False engine mix if_False option.case split_beta guarded_update_total)
      next
        case None
        then show ?thesis
          unfolding processRawStateChange_def Let_def
          by (simp only: False engine mix if_False option.case if_chain_total)
      qed
    qed
  qed
qed

subsection \<open>The sample rate and the sample counts, in either order\<close>

lemma rawDeckUpdate_TrackLength:
  "rawDeckUpdate ns ''TrackLength'' v d =
     d\<lparr>trackLengthRaw := float_or0 ns v, trackLength := seconds d (float_or0 ns v)\<rparr>"
  by (simp add: rawDeckUpdate_def)

lemma rawDeckUpdate_CuePosition:
  "rawDeckUpdate ns ''CuePosition'' v d =
     d\<lparr>cuePositionRaw := float_or0 ns v, cuePosition := seconds d (float_or0 ns v)\<rparr>"
  by (simp add: rawDeckUpdate_def)

lemma rawDeckUpdate_LoopIn:
  "rawDeckUpdate ns ''CurrentLoopInPosition'' v d =
     d\<lparr>loopInRaw := float_or0 ns v, currentLoopInPosition := seconds d (float_or0 ns v)\<rparr>"
  by (simp add: rawDeckUpdate_def)

lemma rawDeckUpdate_LoopOut:
  "rawDeckUpdate ns ''CurrentLoopOutPosition'' v d =
     d\<lparr>loopOutRaw := float_or0 ns v, currentLoopOutPosition := seconds d (float_or0 ns v)\<rparr>"
  by (simp add: rawDeckUpdate_def)

lemma rawDeckUpdate_SampleRate:
  assumes "jgt (int_or0 ns r) (Fin 0)"
  shows "sampleRate (rawDeckUpdate ns ''SampleRate'' r d) = int_or0 ns r"
    and "trackLengthRaw (rawDeckUpdate ns ''SampleRate'' r d) = trackLengthRaw d"
    and "cuePositionRaw (rawDeckUpdate ns ''SampleRate'' r d) = cuePositionRaw d"
    and "loopInRaw (rawDeckUpdate ns ''SampleRate'' r d) = loopInRaw d"
    and "loopOutRaw (rawDeckUpdate ns ''SampleRate'' r d) = loopOutRaw d"
    and "trackLength (rawDeckUpdate ns ''SampleRate'' r d) =
           (if num_truthy (trackLengthRaw d) then jdiv (trackLengthRaw d) (int_or0 ns r)
            else trackLength d)"
    and "cuePosition (rawDeckUpdate ns ''SampleRate'' r d) =
           (if num_truthy (cuePositionRaw d) then jdiv (cuePositionRaw d) (int_or0 ns r)
            else cuePosition d)"
    and "currentLoopInPosition (rawDeckUpdate ns ''SampleRate'' r d) =
           (if num_truthy (loopInRaw d) then jdiv (loopInRaw d) (int_or0 ns r)
            else currentLoopInPosition d)"
    and "currentLoopOutPosition (rawDeckUpdate ns ''SampleRate'' r d) =
           (if num_truthy (loopOutRaw d) then jdiv (loopOutRaw d) (int_or0 ns r)
            else currentLoopOutPosition d)"
  using assms by (simp_all add: rawDeckUpdate_def Let_def)

lemma jdiv_zero: "jgt b (Fin 0) \<Longrightarrow> jdiv (Fin 0) b = Fin 0"
  by (cases b) auto

lemma seconds_zero: "seconds d (Fin 0) = Fin 0"
  by (simp add: seconds_def jdiv_zero)

lemma float_or0_cases: "num_truthy (float_or0 ns v) \<or> float_or0 ns v = Fin 0"
  by (simp add: float_or0_def num_or_def)

lemma applyBoth_found:
  "decks s n = Some d \<Longrightarrow>
   deckField sel n (applyBoth ns n key1 v1 key2 v2 s)
     = Some (sel (rawDeckUpdate ns key2 v2 (rawDeckUpdate ns key1 v1 d)))"
  by (simp add: applyBoth_def applyRawDeckState_found deckField_def)

lemma raw_then_rate:
  assumes "jgt (int_or0 ns r) (Fin 0)"
  shows "trackLength (rawDeckUpdate ns ''SampleRate'' r (rawDeckUpdate ns ''TrackLength'' v d))
           = jdiv (float_or0 ns v) (int_or0 ns r)"
    and "cuePosition (rawDeckUpdate ns ''SampleRate'' r (rawDeckUpdate ns ''CuePosition'' v d))
           = jdiv (float_or0 ns v) (int_or0 ns r)"
    and "currentLoopInPosition
           (rawDeckUpdate ns ''SampleRate'' r (rawDeckUpdate ns ''CurrentLoopInPosition'' v d))
           = jdiv (float_or0 ns v) (int_or0 ns r)"
    and "currentLoopOutPosition
           (rawDeckUpdate ns ''SampleRate'' r (rawDeckUpdate ns ''CurrentLoopOutPosition'' v d))
           = jdiv (float_or0 ns v) (int_or0 ns r)"
  using float_or0_cases [of ns v] assms
  by (auto simp: rawDeckUpdate_SampleRate rawDeckUpdate_TrackLength rawDeckUpdate_CuePosition
        rawDeckUpdate_LoopIn rawDeckUpdate_LoopOut seconds_zero jdiv_zero)

lemma rate_then_raw:
  assumes "jgt (int_or0 ns r) (Fin 0)"
  shows "trackLength (rawDeckUpdate ns ''TrackLength'' v (rawDeckUpdate ns ''SampleRate'' r d))
           = jdiv (float_or0 ns v) (int_or0 ns r)"
    and "cuePosition (rawDeckUpdate ns ''CuePosition'' v (rawDeckUpdate ns ''SampleRate'' r d))
           = jdiv (float_or0 ns v) (int_or0 ns r)"
    and "currentLoopInPosition
           (rawDeckUpdate ns ''CurrentLoopInPosition'' v (rawDeckUpdate ns ''SampleRate'' r d))
           = jdiv (float_or0 ns v) (int_or0 ns r)"
    and "currentLoopOutPosition
           (rawDeckUpdate ns ''CurrentLoopOutPosition'' v (rawDeckUpdate ns ''SampleRate'' r d))
           = jdiv (float_or0 ns v) (int_or0 ns r)"
  using assms
  by (simp_all add: rawDeckUpdate_SampleRate rawDeckUpdate_TrackLength rawDeckUpdate_CuePosition
        rawDeckUpdate_LoopIn rawDeckUpdate_LoopOut seconds_def)

lemma parseInt_num_44100: "parseInt_num (Fin 44100) = Fin 44100"
  using parseInt_num_int [of 44100] by simp

text \<open>
  C1. On a deck of the tree, an update of a sample count (the track length, the cue
  position, the start or the end of the loop) and an update of the sample rate to a
  positive rate give the same seconds for that count in either order: the count divided by
  the rate. Both sequences succeed.
\<close>

theorem sample_rate_order:
  assumes "decks s n = Some d" and "jgt (int_or0 ns r) (Fin 0)"
  shows "deckField trackLength n (applyBoth ns n ''TrackLength'' v ''SampleRate'' r s)
           = Some (jdiv (float_or0 ns v) (int_or0 ns r))
       \<and> deckField trackLength n (applyBoth ns n ''SampleRate'' r ''TrackLength'' v s)
           = Some (jdiv (float_or0 ns v) (int_or0 ns r))
       \<and> deckField cuePosition n (applyBoth ns n ''CuePosition'' v ''SampleRate'' r s)
           = Some (jdiv (float_or0 ns v) (int_or0 ns r))
       \<and> deckField cuePosition n (applyBoth ns n ''SampleRate'' r ''CuePosition'' v s)
           = Some (jdiv (float_or0 ns v) (int_or0 ns r))
       \<and> deckField currentLoopInPosition n
             (applyBoth ns n ''CurrentLoopInPosition'' v ''SampleRate'' r s)
           = Some (jdiv (float_or0 ns v) (int_or0 ns r))
       \<and> deckField currentLoopInPosition n
             (applyBoth ns n ''SampleRate'' r ''CurrentLoopInPosition'' v s)
           = Some (jdiv (float_or0 ns v) (int_or0 ns r))
       \<and> deckField currentLoopOutPosition n
             (applyBoth ns n ''CurrentLoopOutPosition'' v ''SampleRate'' r s)
           = Some (jdiv (float_or0 ns v) (int_or0 ns r))
       \<and> deckField currentLoopOutPosition n
             (applyBoth ns n ''SampleRate'' r ''CurrentLoopOutPosition'' v s)
           = Some (jdiv (float_or0 ns v) (int_or0 ns r))"
  by (simp only: applyBoth_found [OF assms(1)] raw_then_rate [OF assms(2)]
        rate_then_raw [OF assms(2)] simp_thms)

theorem sample_rate_order_witness:
  "deckField trackLength (Fin 2)
     (applyBoth (\<lambda>x. []) (Fin 2) ''TrackLength'' (JNum (Fin 26460000))
        ''SampleRate'' (JNum (Fin 44100)) createEmptyState) = Some (Fin 600)
   \<and> deckField trackLength (Fin 2)
     (applyBoth (\<lambda>x. []) (Fin 2) ''SampleRate'' (JNum (Fin 44100))
        ''TrackLength'' (JNum (Fin 26460000)) createEmptyState) = Some (Fin 600)"
proof -
  have d: "decks createEmptyState (Fin 2) = Some emptyDeck" by (simp add: createEmptyState_def)
  have r: "int_or0 (\<lambda>x. []) (JNum (Fin 44100)) = Fin 44100"
    by (simp add: int_or0_def parseInt_num_44100 num_or_def num_truthy_def)
  have g: "jgt (int_or0 (\<lambda>x. []) (JNum (Fin 44100))) (Fin 0)" by (simp add: r)
  have v: "float_or0 (\<lambda>x. []) (JNum (Fin 26460000)) = Fin 26460000"
    by (simp add: float_or0_def num_or_def num_truthy_def)
  show ?thesis
    using sample_rate_order [OF d g, of "JNum (Fin 26460000)"] by (simp add: r v)
qed

subsection \<open>The fields of a merged deck\<close>

lemma when_present_frame:
  "(\<And>v d. sel (f v d) = sel d) \<Longrightarrow> sel (when_present st k f d) = sel d"
  by (simp add: when_present_def)

lemma when_present_sel:
  "sel (when_present st k f d) =
     (if field st k \<noteq> JUndefined then sel (f (field st k) d) else sel d)"
  by (simp add: when_present_def)

lemma hotcueStep_only_hotcues: "\<exists>h. hotcueStep st d i = d\<lparr>hotcues := h\<rparr>"
proof (cases "truthy (field st (hotcue_key i))")
  case True
  then show ?thesis by (auto simp: hotcueStep_def Let_def)
next
  case False
  then have "hotcueStep st d i = d\<lparr>hotcues := hotcues d\<rparr>" by (simp add: hotcueStep_def)
  then show ?thesis by blast
qed

lemma hotcue_loop_only_hotcues: "\<exists>h. foldl (hotcueStep st) d xs = d\<lparr>hotcues := h\<rparr>"
proof (induction xs arbitrary: d)
  case Nil
  have "d = d\<lparr>hotcues := hotcues d\<rparr>" by simp
  then show ?case by (metis foldl_Nil)
next
  case (Cons i xs)
  obtain h where h: "hotcueStep st d i = d\<lparr>hotcues := h\<rparr>"
    using hotcueStep_only_hotcues by blast
  obtain h' where "foldl (hotcueStep st) (d\<lparr>hotcues := h\<rparr>) xs = d\<lparr>hotcues := h\<rparr>\<lparr>hotcues := h'\<rparr>"
    using Cons.IH by blast
  then show ?case using h by auto
qed

lemma hotcue_loop_frame:
  "(\<And>d h. sel (d\<lparr>hotcues := h\<rparr>) = sel d) \<Longrightarrow> sel (foldl (hotcueStep st) d xs) = sel d"
  using hotcue_loop_only_hotcues [of st d xs] by auto

lemma mergeDeck_play:
  "play (mergeDeck ns st d) =
     (if field st ''play'' \<noteq> JUndefined then truthy (field st ''play'') else play d)"
  by (simp add: mergeDeck_def Let_def hotcue_loop_frame [of play] when_present_frame [of play]
        when_present_sel [of play _ "''play''"])

lemma mergeDeck_trackBPM:
  "trackBPM (mergeDeck ns st d) =
     (if field st ''trackBpm'' \<noteq> JUndefined \<and> gt0 ns (field st ''trackBpm'')
      then field st ''trackBpm'' else trackBPM d)"
  by (simp add: mergeDeck_def Let_def hotcue_loop_frame [of trackBPM]
        when_present_frame [of trackBPM] when_present_sel [of trackBPM _ "''trackBpm''"])

lemma mergeDeck_currentBPM:
  "currentBPM (mergeDeck ns st d) =
     (if field st ''currentBpm'' \<noteq> JUndefined \<and> gt0 ns (field st ''currentBpm'')
      then field st ''currentBpm'' else currentBPM d)"
  by (simp add: mergeDeck_def Let_def hotcue_loop_frame [of currentBPM]
        when_present_frame [of currentBPM] when_present_sel [of currentBPM _ "''currentBpm''"])

lemma mergeDeck_trackUri:
  "trackUri (mergeDeck ns st d) =
     (let uri = (if field st ''trackPath'' \<noteq> JUndefined
                 then js_or (field st ''trackPath'') (JStr []) else trackUri d)
      in if field st ''fileLocation'' \<noteq> JUndefined then js_or (field st ''fileLocation'') uri
         else uri)"
  by (simp add: mergeDeck_def Let_def hotcue_loop_frame [of trackUri]
        when_present_frame [of trackUri] when_present_sel [of trackUri _ "''trackPath''"]
        when_present_sel [of trackUri _ "''fileLocation''"])

lemma hotcueStep_at:
  "hotcueAt (hotcueStep st d j) i =
     (if j = i \<and> truthy (field st (hotcue_key i)) then Some (field st (hotcue_key i))
      else hotcueAt d i)"
  by (cases "hotcues d") (auto simp: hotcueStep_def hotcueAt_def Let_def)

lemma hotcue_loop_at:
  "hotcueAt (foldl (hotcueStep st) d xs) i =
     (if i \<in> set xs \<and> truthy (field st (hotcue_key i)) then Some (field st (hotcue_key i))
      else hotcueAt d i)"
  by (induction xs arbitrary: d) (auto simp: hotcueStep_at)

lemma hotcueAt_cong: "hotcues d = hotcues d' \<Longrightarrow> hotcueAt d i = hotcueAt d' i"
  by (simp add: hotcueAt_def)

lemma mergeDeck_hotcueAt:
  "hotcueAt (mergeDeck ns st d) i =
     (if 1 \<le> i \<and> i \<le> 8 \<and> truthy (field st (hotcue_key i))
      then Some (field st (hotcue_key i)) else hotcueAt d i)"
proof -
  have range: "i \<in> set [1 ..< 9] \<longleftrightarrow> 1 \<le> i \<and> i \<le> 8" by auto
  show ?thesis
    unfolding mergeDeck_def Let_def hotcue_loop_at range
    by (auto intro!: hotcueAt_cong simp: when_present_frame [of hotcues])
qed

lemma hotcue_loop_noop:
  "(\<And>j. j \<in> set xs \<Longrightarrow> \<not> truthy (field st (hotcue_key j))) \<Longrightarrow>
   foldl (hotcueStep st) d xs = d"
  by (induction xs arbitrary: d) (simp_all add: hotcueStep_def)

lemma mergeDeck_hotcues_untouched:
  assumes "\<And>j. 1 \<le> j \<Longrightarrow> j \<le> 8 \<Longrightarrow> \<not> truthy (field st (hotcue_key j))"
  shows "hotcues (mergeDeck ns st d) = hotcues d"
proof -
  have "\<And>D. foldl (hotcueStep st) D [1 ..< 9] = D"
    by (rule hotcue_loop_noop) (simp add: assms)
  then show ?thesis
    by (simp add: mergeDeck_def Let_def when_present_frame [of hotcues])
qed

lemma hotcue_keys:
  "map hotcue_key [1, 2, 3, 4, 5, 6, 7, 8] =
     [''hotcue1'', ''hotcue2'', ''hotcue3'', ''hotcue4'', ''hotcue5'', ''hotcue6'', ''hotcue7'',
      ''hotcue8'']"
  by (simp add: hotcue_key_def nat_str.simps digit_char_def)

lemma applyPlayerStatus_found:
  assumes "resolveDeckNumber ns st = DeckNum n" and "decks s n = Some d"
  shows "applyPlayerStatus ns (Some st) s =
           s\<lparr>decks := (decks s)(n \<mapsto> mergeDeck ns st d), device := mergeDevice st (device s)\<rparr>"
  using assms by (simp add: applyPlayerStatus_def deckAt_def)

lemma resolve_deck_A: "field st ''deck'' = JStr ''A'' \<Longrightarrow> resolveDeckNumber ns st = DeckNum (Fin 1)"
  by (simp add: resolveDeckNumber_def deck_letters_def num_truthy_def)

lemma gt0_zero: "\<not> gt0 ns (JNum (Fin 0))"
  by (simp add: gt0_def)

text \<open>
  C5. The merge of the play flag goes by presence. For a status that names a deck of the
  tree, the play flag of the deck becomes the truthiness of the \<^verbatim>\<open>play\<close> field when the
  status has one, and stays what it was when the status has none: a \<^verbatim>\<open>play\<close> that is
  \<^verbatim>\<open>false\<close> sets it to false, whatever it was.
\<close>

theorem play_merge_presence:
  assumes "resolveDeckNumber ns st = DeckNum n" and "decks s n = Some d"
  shows "map_option play (decks (applyPlayerStatus ns (Some st) s) n)
           = Some (if field st ''play'' \<noteq> JUndefined then truthy (field st ''play'') else play d)
       \<and> (field st ''play'' = JBool False \<longrightarrow>
            map_option play (decks (applyPlayerStatus ns (Some st) s) n) = Some False)
       \<and> (field st ''play'' = JUndefined \<longrightarrow>
            map_option play (decks (applyPlayerStatus ns (Some st) s) n) = Some (play d))"
  by (simp add: applyPlayerStatus_found [OF assms] mergeDeck_play)

theorem play_merge_presence_witness:
  "map_option play
     (decks (applyPlayerStatus (\<lambda>x. []) (Some [''deck'' \<mapsto> JStr ''A'', ''play'' \<mapsto> JBool False])
        (createEmptyState\<lparr>decks := (decks createEmptyState)(Fin 1 \<mapsto> emptyDeck\<lparr>play := True\<rparr>)\<rparr>))
        (Fin 1)) = Some False
   \<and> map_option play
     (decks (applyPlayerStatus (\<lambda>x. []) (Some [''deck'' \<mapsto> JStr ''A''])
        (createEmptyState\<lparr>decks := (decks createEmptyState)(Fin 1 \<mapsto> emptyDeck\<lparr>play := True\<rparr>)\<rparr>))
        (Fin 1)) = Some True"
proof -
  let ?s = "createEmptyState\<lparr>decks := (decks createEmptyState)(Fin 1 \<mapsto> emptyDeck\<lparr>play := True\<rparr>)\<rparr>"
  let ?a = "[''deck'' \<mapsto> JStr ''A'', ''play'' \<mapsto> JBool False]"
  let ?b = "[''deck'' \<mapsto> JStr ''A'']"
  have d: "decks ?s (Fin 1) = Some (emptyDeck\<lparr>play := True\<rparr>)" by simp
  have ra: "resolveDeckNumber (\<lambda>x. []) ?a = DeckNum (Fin 1)"
    by (rule resolve_deck_A) (simp add: field_def)
  have rb: "resolveDeckNumber (\<lambda>x. []) ?b = DeckNum (Fin 1)"
    by (rule resolve_deck_A) (simp add: field_def)
  have pa: "field ?a ''play'' = JBool False" by (simp add: field_def)
  have pb: "field ?b ''play'' = JUndefined" by (simp add: field_def)
  show ?thesis
    using play_merge_presence [OF ra d] play_merge_presence [OF rb d] pa pb by simp
qed

text \<open>
  C6. The track tempo and the playing tempo of a deck only take a value of the status that
  is greater than zero. A \<^verbatim>\<open>trackBpm\<close> (or \<^verbatim>\<open>currentBpm\<close>) that is 0 or missing leaves the
  tempo of the deck as it was, 128 for instance.
\<close>

theorem bpm_guard:
  assumes "resolveDeckNumber ns st = DeckNum n" and "decks s n = Some d"
  shows "map_option trackBPM (decks (applyPlayerStatus ns (Some st) s) n)
           = Some (if field st ''trackBpm'' \<noteq> JUndefined \<and> gt0 ns (field st ''trackBpm'')
                   then field st ''trackBpm'' else trackBPM d)
       \<and> map_option currentBPM (decks (applyPlayerStatus ns (Some st) s) n)
           = Some (if field st ''currentBpm'' \<noteq> JUndefined \<and> gt0 ns (field st ''currentBpm'')
                   then field st ''currentBpm'' else currentBPM d)
       \<and> (field st ''trackBpm'' = JNum (Fin 0) \<or> field st ''trackBpm'' = JUndefined \<longrightarrow>
            map_option trackBPM (decks (applyPlayerStatus ns (Some st) s) n) = Some (trackBPM d))
       \<and> (field st ''currentBpm'' = JNum (Fin 0) \<or> field st ''currentBpm'' = JUndefined \<longrightarrow>
            map_option currentBPM (decks (applyPlayerStatus ns (Some st) s) n)
              = Some (currentBPM d))"
  by (auto simp: applyPlayerStatus_found [OF assms] mergeDeck_trackBPM mergeDeck_currentBPM
        gt0_zero)

theorem bpm_guard_witness:
  "map_option trackBPM
     (decks (applyPlayerStatus (\<lambda>x. []) (Some [''deck'' \<mapsto> JStr ''A'', ''trackBpm'' \<mapsto> JNum (Fin 0)])
        (createEmptyState\<lparr>decks := (decks createEmptyState)
           (Fin 1 \<mapsto> emptyDeck\<lparr>trackBPM := JNum (Fin 128)\<rparr>)\<rparr>))
        (Fin 1)) = Some (JNum (Fin 128))
   \<and> map_option trackBPM
     (decks (applyPlayerStatus (\<lambda>x. []) (Some [''deck'' \<mapsto> JStr ''A''])
        (createEmptyState\<lparr>decks := (decks createEmptyState)
           (Fin 1 \<mapsto> emptyDeck\<lparr>trackBPM := JNum (Fin 128)\<rparr>)\<rparr>))
        (Fin 1)) = Some (JNum (Fin 128))
   \<and> map_option trackBPM
     (decks (applyPlayerStatus (\<lambda>x. []) (Some [''deck'' \<mapsto> JStr ''A'', ''trackBpm'' \<mapsto> JNum (Fin 126)])
        (createEmptyState\<lparr>decks := (decks createEmptyState)
           (Fin 1 \<mapsto> emptyDeck\<lparr>trackBPM := JNum (Fin 128)\<rparr>)\<rparr>))
        (Fin 1)) = Some (JNum (Fin 126))"
proof -
  let ?s = "createEmptyState\<lparr>decks := (decks createEmptyState)
           (Fin 1 \<mapsto> emptyDeck\<lparr>trackBPM := JNum (Fin 128)\<rparr>)\<rparr>"
  let ?a = "[''deck'' \<mapsto> JStr ''A'', ''trackBpm'' \<mapsto> JNum (Fin 0)]"
  let ?b = "[''deck'' \<mapsto> JStr ''A'']"
  let ?c = "[''deck'' \<mapsto> JStr ''A'', ''trackBpm'' \<mapsto> JNum (Fin 126)]"
  have d: "decks ?s (Fin 1) = Some (emptyDeck\<lparr>trackBPM := JNum (Fin 128)\<rparr>)" by simp
  have ra: "resolveDeckNumber (\<lambda>x. []) ?a = DeckNum (Fin 1)"
    by (rule resolve_deck_A) (simp add: field_def)
  have rb: "resolveDeckNumber (\<lambda>x. []) ?b = DeckNum (Fin 1)"
    by (rule resolve_deck_A) (simp add: field_def)
  have rc: "resolveDeckNumber (\<lambda>x. []) ?c = DeckNum (Fin 1)"
    by (rule resolve_deck_A) (simp add: field_def)
  have pa: "field ?a ''trackBpm'' = JNum (Fin 0)" by (simp add: field_def)
  have pb: "field ?b ''trackBpm'' = JUndefined" by (simp add: field_def)
  have pc: "field ?c ''trackBpm'' = JNum (Fin 126)" by (simp add: field_def)
  have g: "gt0 (\<lambda>x. []) (JNum (Fin 126))" by (simp add: gt0_def)
  show ?thesis
    using bpm_guard [OF ra d] bpm_guard [OF rb d] bpm_guard [OF rc d] pa pb pc g gt0_zero
    by simp
qed

text \<open>
  C2, as amended. For a status that names a deck of the tree, the display address of the
  deck is first the track path (or the empty string for a falsy one), when the status has
  one, and then the file location, when the status has one that is truthy. So with both
  fields, a truthy file location wins over the track path, and the track path stays only
  under a falsy file location.
\<close>

theorem display_uri_merge:
  assumes "resolveDeckNumber ns st = DeckNum n" and "decks s n = Some d"
  shows "map_option trackUri (decks (applyPlayerStatus ns (Some st) s) n)
           = Some (let uri = (if field st ''trackPath'' \<noteq> JUndefined
                              then js_or (field st ''trackPath'') (JStr []) else trackUri d)
                   in if field st ''fileLocation'' \<noteq> JUndefined
                      then js_or (field st ''fileLocation'') uri else uri)
       \<and> (field st ''trackPath'' \<noteq> JUndefined \<and> truthy (field st ''fileLocation'') \<longrightarrow>
            map_option trackUri (decks (applyPlayerStatus ns (Some st) s) n)
              = Some (field st ''fileLocation''))
       \<and> (field st ''trackPath'' \<noteq> JUndefined \<and> \<not> truthy (field st ''fileLocation'') \<longrightarrow>
            map_option trackUri (decks (applyPlayerStatus ns (Some st) s) n)
              = Some (js_or (field st ''trackPath'') (JStr [])))"
  by (auto simp: applyPlayerStatus_found [OF assms] mergeDeck_trackUri Let_def js_or_def)

theorem display_uri_merge_witness:
  "map_option trackUri
     (decks (applyPlayerStatus (\<lambda>x. [])
        (Some [''deck'' \<mapsto> JStr ''A'', ''trackPath'' \<mapsto> JStr ''/music/a.mp3'',
               ''fileLocation'' \<mapsto> JStr ''/net/b.mp3''])
        createEmptyState) (Fin 1)) = Some (JStr ''/net/b.mp3'')
   \<and> map_option trackUri
     (decks (applyPlayerStatus (\<lambda>x. [])
        (Some [''deck'' \<mapsto> JStr ''A'', ''trackPath'' \<mapsto> JStr ''/music/a.mp3'',
               ''fileLocation'' \<mapsto> JStr []])
        createEmptyState) (Fin 1)) = Some (JStr ''/music/a.mp3'')"
proof -
  let ?a = "[''deck'' \<mapsto> JStr ''A'', ''trackPath'' \<mapsto> JStr ''/music/a.mp3'',
               ''fileLocation'' \<mapsto> JStr ''/net/b.mp3'']"
  let ?b = "[''deck'' \<mapsto> JStr ''A'', ''trackPath'' \<mapsto> JStr ''/music/a.mp3'',
               ''fileLocation'' \<mapsto> JStr []]"
  have d: "decks createEmptyState (Fin 1) = Some emptyDeck" by (simp add: createEmptyState_def)
  have ra: "resolveDeckNumber (\<lambda>x. []) ?a = DeckNum (Fin 1)"
    by (rule resolve_deck_A) (simp add: field_def)
  have rb: "resolveDeckNumber (\<lambda>x. []) ?b = DeckNum (Fin 1)"
    by (rule resolve_deck_A) (simp add: field_def)
  have fa: "field ?a ''trackPath'' = JStr ''/music/a.mp3''"
    "field ?a ''fileLocation'' = JStr ''/net/b.mp3''"
    by (simp_all add: field_def)
  have fb: "field ?b ''trackPath'' = JStr ''/music/a.mp3''"
    "field ?b ''fileLocation'' = JStr []"
    by (simp_all add: field_def)
  show ?thesis
    using display_uri_merge [OF ra d] display_uri_merge [OF rb d] fa fb
    by (simp add: js_or_def)
qed

text \<open>
  The claim as it was stated asks for the track path to win: with both fields set to
  different addresses on deck A of the empty tree, the display address is the file
  location.
\<close>

theorem display_uri_counterexample:
  "map_option trackUri
     (decks (applyPlayerStatus (\<lambda>x. [])
        (Some [''deck'' \<mapsto> JStr ''A'', ''trackPath'' \<mapsto> JStr ''/music/a.mp3'',
               ''fileLocation'' \<mapsto> JStr ''/net/b.mp3''])
        createEmptyState) (Fin 1)) = Some (JStr ''/net/b.mp3'')
   \<and> map_option trackUri
     (decks (applyPlayerStatus (\<lambda>x. [])
        (Some [''deck'' \<mapsto> JStr ''A'', ''trackPath'' \<mapsto> JStr ''/music/a.mp3'',
               ''fileLocation'' \<mapsto> JStr ''/net/b.mp3''])
        createEmptyState) (Fin 1)) \<noteq> Some (JStr ''/music/a.mp3'')"
proof -
  let ?st = "[''deck'' \<mapsto> JStr ''A'', ''trackPath'' \<mapsto> JStr ''/music/a.mp3'',
               ''fileLocation'' \<mapsto> JStr ''/net/b.mp3'']"
  have d: "decks createEmptyState (Fin 1) = Some emptyDeck" by (simp add: createEmptyState_def)
  have r: "resolveDeckNumber (\<lambda>x. []) ?st = DeckNum (Fin 1)"
    by (rule resolve_deck_A) (simp add: field_def)
  have f: "field ?st ''trackPath'' = JStr ''/music/a.mp3''"
    "field ?st ''fileLocation'' = JStr ''/net/b.mp3''"
    by (simp_all add: field_def)
  show ?thesis
    by (simp add: applyPlayerStatus_found [OF r d] mergeDeck_trackUri f js_or_def)
qed

text \<open>
  C10. The merge of the hotcues goes by truthiness. For a status that names a deck of the
  tree and an index from 1 to 8, the hotcue of the deck at the index becomes the value of
  the field \<^verbatim>\<open>hotcue1\<close> to \<^verbatim>\<open>hotcue8\<close> of that index when the value is truthy, and stays
  what it was (a value, or nothing) when the field is missing or falsy. With no truthy
  hotcue field at all, the hotcues of the deck are untouched, and none are created.
\<close>

theorem hotcue_merge_truthiness:
  assumes "resolveDeckNumber ns st = DeckNum n" and "decks s n = Some d"
    and "1 \<le> i" and "i \<le> 8"
  shows "map_option (\<lambda>d. hotcueAt d i) (decks (applyPlayerStatus ns (Some st) s) n)
           = Some (if truthy (field st (hotcue_key i)) then Some (field st (hotcue_key i))
                   else hotcueAt d i)
       \<and> ((\<forall>j. 1 \<le> j \<and> j \<le> 8 \<longrightarrow> \<not> truthy (field st (hotcue_key j))) \<longrightarrow>
            map_option hotcues (decks (applyPlayerStatus ns (Some st) s) n) = Some (hotcues d))"
  using assms(3,4)
  by (simp add: applyPlayerStatus_found [OF assms(1,2)] mergeDeck_hotcueAt
        mergeDeck_hotcues_untouched)

theorem hotcue_merge_truthiness_witness:
  "map_option (\<lambda>d. (hotcueAt d 1, hotcueAt d 2, hotcueAt d 3))
     (decks (applyPlayerStatus (\<lambda>x. [])
        (Some [''deck'' \<mapsto> JStr ''A'', ''hotcue1'' \<mapsto> JObj [(''state'', JBool True)],
               ''hotcue2'' \<mapsto> JNull, ''hotcue3'' \<mapsto> JNum (Fin 0)])
        (createEmptyState\<lparr>decks := (decks createEmptyState)
           (Fin 1 \<mapsto> emptyDeck\<lparr>hotcues := Some [2 \<mapsto> JStr ''cue'']\<rparr>)\<rparr>))
        (Fin 1))
   = Some (Some (JObj [(''state'', JBool True)]), Some (JStr ''cue''), None)"
proof -
  let ?s = "createEmptyState\<lparr>decks := (decks createEmptyState)
           (Fin 1 \<mapsto> emptyDeck\<lparr>hotcues := Some [2 \<mapsto> JStr ''cue'']\<rparr>)\<rparr>"
  let ?st = "[''deck'' \<mapsto> JStr ''A'', ''hotcue1'' \<mapsto> JObj [(''state'', JBool True)],
               ''hotcue2'' \<mapsto> JNull, ''hotcue3'' \<mapsto> JNum (Fin 0)]"
  have d: "decks ?s (Fin 1) = Some (emptyDeck\<lparr>hotcues := Some [2 \<mapsto> JStr ''cue'']\<rparr>)"
    by simp
  have r: "resolveDeckNumber (\<lambda>x. []) ?st = DeckNum (Fin 1)"
    by (rule resolve_deck_A) (simp add: field_def)
  have k: "hotcue_key 1 = ''hotcue1''" "hotcue_key 2 = ''hotcue2''" "hotcue_key 3 = ''hotcue3''"
    using hotcue_keys by simp_all
  have k1: "hotcue_key (Suc 0) = ''hotcue1''" using k(1) by simp
  have f: "field ?st ''hotcue1'' = JObj [(''state'', JBool True)]"
    "field ?st ''hotcue2'' = JNull" "field ?st ''hotcue3'' = JNum (Fin 0)"
    by (simp_all add: field_def)
  have h1: "(1::nat) \<le> 1" "(1::nat) \<le> 8" "(1::nat) \<le> 2" "(2::nat) \<le> 8"
    "(1::nat) \<le> 3" "(3::nat) \<le> 8"
    by simp_all
  obtain d' where d': "decks (applyPlayerStatus (\<lambda>x. []) (Some ?st) ?s) (Fin 1) = Some d'"
    by (simp add: applyPlayerStatus_found [OF r d])
  have "hotcueAt d' 1 = Some (JObj [(''state'', JBool True)])"
    using hotcue_merge_truthiness [OF r d h1(1,2)] d' by (simp add: k k1 f)
  moreover have "hotcueAt d' 2 = Some (JStr ''cue'')"
    using hotcue_merge_truthiness [OF r d h1(3,4)] d'
    by (simp add: k f hotcueAt_def)
  moreover have "hotcueAt d' 3 = None"
    using hotcue_merge_truthiness [OF r d h1(5,6)] d'
    by (simp add: k f hotcueAt_def num_truthy_def)
  ultimately show ?thesis using d' by simp
qed

end
